theory Spec2Isabelle
  imports Main "HOL-Library.List_Lexorder" "HOL-Library.Char_ord"
begin

section \<open>The file system seen by the generator\<close>

text \<open>
  The scripts \<^verbatim>\<open>generate-docs-final.js\<close> and the variant embedded in
  \<^verbatim>\<open>USAGE_EXAMPLE.md\<close> read a directory tree through Node's synchronous
  \<^verbatim>\<open>fs\<close> calls.  A path is the list of its components below the file-system root,
  so \<^verbatim>\<open>path.resolve(dir, file)\<close> for a directory entry \<open>file\<close> is \<open>dir @ [file]\<close>.

  A node of the tree is what the calls can observe at a path:
  \<^item> \<open>File size content\<close>: a regular file; \<open>size\<close> is \<^verbatim>\<open>stat.size\<close>, \<open>content\<close> is
    the UTF-8 byte length of the text returned by \<^verbatim>\<open>readFileSync\<close>, or \<open>None\<close>
    when the read throws;
  \<^item> \<open>Dir size entries\<close>: a directory that can be listed, with the size
    \<^verbatim>\<open>statSync\<close> reports for it and its entries in \<^verbatim>\<open>readdirSync\<close> order;
  \<^item> \<open>NoList size\<close>: a directory for which \<^verbatim>\<open>statSync\<close> succeeds and
    \<^verbatim>\<open>readdirSync\<close> throws \<open>EACCES\<close> (no read permission);
  \<^item> \<open>NoStat err\<close>: an entry that its parent lists and no call can examine; every
    call on it throws \<open>err\<close> (\<open>ENOENT\<close> for a dangling symbolic link,
    \<open>EACCES\<close> for a missing search permission).

  The names listed by one directory are distinct, and the tree is finite (no link leads
  back to a directory above it).  Messages on the console are left out, except the
  report of \<^verbatim>\<open>main\<close> about a missing target directory.
\<close>

type_synonym path = "string list"

datatype error = ENOENT | ENOTDIR | EACCES | EISDIR | TypeError

datatype node =
    File nat "nat option"
  | Dir nat "(string \<times> node) list"
  | NoList nat
  | NoStat error

fun lookup :: "node \<Rightarrow> path \<Rightarrow> node option" where
  "lookup n [] = Some n"
| "lookup (Dir dsz entries) (c # p) =
     (case map_of entries c of None \<Rightarrow> None | Some n \<Rightarrow> lookup n p)"
| "lookup _ (c # p) = None"

text \<open>The \<^verbatim>\<open>fs\<close> primitives, on what a path resolves to (\<open>None\<close>: nothing there).\<close>

record stats =
  isDirectory :: bool
  stat_size :: nat

fun statSync :: "node option \<Rightarrow> error + stats" where
  "statSync None = Inl ENOENT"
| "statSync (Some (NoStat why)) = Inl why"
| "statSync (Some (File sz c)) = Inr \<lparr>isDirectory = False, stat_size = sz\<rparr>"
| "statSync (Some (Dir dsz entries)) = Inr \<lparr>isDirectory = True, stat_size = dsz\<rparr>"
| "statSync (Some (NoList dsz)) = Inr \<lparr>isDirectory = True, stat_size = dsz\<rparr>"

fun readdirSync :: "node option \<Rightarrow> error + string list" where
  "readdirSync None = Inl ENOENT"
| "readdirSync (Some (NoStat why)) = Inl why"
| "readdirSync (Some (File sz c)) = Inl ENOTDIR"
| "readdirSync (Some (NoList dsz)) = Inl EACCES"
| "readdirSync (Some (Dir dsz entries)) = Inr (map fst entries)"

fun readFileSync :: "node option \<Rightarrow> error + nat" where
  "readFileSync (Some (File sz (Some len))) = Inr len"
| "readFileSync (Some (File sz None)) = Inl EACCES"
| "readFileSync (Some (Dir dsz entries)) = Inl EISDIR"
| "readFileSync (Some (NoList dsz)) = Inl EISDIR"
| "readFileSync (Some (NoStat why)) = Inl why"
| "readFileSync None = Inl ENOENT"

fun existsSync :: "node option \<Rightarrow> bool" where
  "existsSync None = False"
| "existsSync (Some (NoStat why)) = False"
| "existsSync (Some n) = True"

section \<open>Names\<close>

text \<open>
  \<^verbatim>\<open>path.extname(file) === '.md'\<close> for a name without separators: the name ends in
  \<open>.md\<close> and has at least one character before that dot (Node gives the name
  \<open>.md\<close> itself the empty extension).
\<close>

definition extname_is_md :: "string \<Rightarrow> bool" where
  "extname_is_md file \<longleftrightarrow>
     3 < length file \<and> drop (length file - 3) file = ''.md''"

text \<open>\<^verbatim>\<open>path.basename(file, '.md')\<close> on a name for which the test above holds.\<close>

definition basename_md :: "string \<Rightarrow> string" where
  "basename_md file = take (length file - 3) file"

definition basename :: "path \<Rightarrow> string" where
  "basename p = (if p = [] then [] else last p)"

text \<open>\<^verbatim>\<open>config.ignoreFiles\<close>.\<close>

definition ignoreFiles :: "string list" where
  "ignoreFiles = [''_sidebar.md'', ''README.md'', ''_navbar.md'', ''_coverpage.md'']"

section \<open>Content metrics\<close>

text \<open>
  \<^verbatim>\<open>Math.round(a / b)\<close> for natural \<open>a\<close> and positive \<open>b\<close>: the nearest integer,
  a half rounding up.  The source computes \<^verbatim>\<open>size / 1024 * 100\<close> and
  \<^verbatim>\<open>size / (1024 * 1024) * 100\<close> in double precision; dividing by a power of two is
  exact, and the product with 100 is exact as long as \<open>100 * size < 2 ^ 53\<close>, so for
  such sizes the double arithmetic agrees with the rational arithmetic below.
\<close>

definition js_round_div :: "nat \<Rightarrow> nat \<Rightarrow> nat" where
  "js_round_div a b = (2 * a + b) div (2 * b)"

definition digit :: "nat \<Rightarrow> char" where
  "digit d = ''0123456789'' ! d"

fun showNat :: "nat \<Rightarrow> string" where
  "showNat n =
     (if n < 10 then [digit n]
      else showNat (n div 10) @ [digit (n mod 10)])"

declare showNat.simps [simp del]

text \<open>
  JavaScript prints the number \<open>h / 100\<close> with the shortest decimal digits: no
  fraction when \<open>h\<close> is a multiple of 100, one digit when it is a multiple of 10.
\<close>

definition showHundredths :: "nat \<Rightarrow> string" where
  "showHundredths h =
     showNat (h div 100) @
       (if h mod 100 = 0 then []
        else if h mod 10 = 0 then ''.'' @ showNat (h mod 100 div 10)
        else ''.'' @ showNat (h mod 100 div 10) @ showNat (h mod 10))"

text \<open>The value \<^verbatim>\<open>Math.round(size / unit * 100)\<close>, in hundredths of the unit.\<close>

definition hundredths :: "nat \<Rightarrow> nat \<Rightarrow> nat" where
  "hundredths sz unit = js_round_div (100 * sz) unit"

record sized =
  bytes :: nat
  formatted :: string

text \<open>The three-way branch shared by \<^verbatim>\<open>getFileSize\<close> and \<^verbatim>\<open>getDirectorySize\<close>.\<close>

definition formatSize :: "nat \<Rightarrow> sized" where
  "formatSize sz =
     (if sz < 1024 then \<lparr>bytes = sz, formatted = showNat sz @ '' B''\<rparr>
      else if sz < 1024 * 1024 then
        \<lparr>bytes = sz, formatted = showHundredths (hundredths sz 1024) @ '' KB''\<rparr>
      else
        \<lparr>bytes = sz, formatted = showHundredths (hundredths sz (1024 * 1024)) @ '' MB''\<rparr>)"

definition zeroSize :: sized where
  "zeroSize = \<lparr>bytes = 0, formatted = ''0 B''\<rparr>"

definition getFileSize :: "node option \<Rightarrow> sized" where
  "getFileSize filePath =
     (case statSync filePath of
        Inl err \<Rightarrow> zeroSize
      | Inr st \<Rightarrow> formatSize (stat_size st))"

definition estimateWordCount :: "node option \<Rightarrow> nat" where
  "estimateWordCount filePath =
     (case readFileSync filePath of
        Inl err \<Rightarrow> 0
      | Inr len \<Rightarrow> js_round_div len 3)"

section \<open>Aggregates\<close>

text \<open>
  Each aggregate lists the directory, walks the entries with \<^verbatim>\<open>forEach\<close> and adds
  to a running total; the whole body sits in one \<^verbatim>\<open>try\<close>, whose \<^verbatim>\<open>catch\<close>
  returns zero.  The loop functions return \<open>Inl\<close> when \<^verbatim>\<open>statSync\<close> throws on an
  entry; a recursive call on a sub-directory has its own \<^verbatim>\<open>catch\<close> and always
  returns a number.  The recursion of the source on \<^verbatim>\<open>fullPath\<close> is the recursion
  on the node found there.
\<close>

fun countMarkdownFiles_node :: "node \<Rightarrow> nat"
  and countMarkdownFiles_forEach :: "(string \<times> node) list \<Rightarrow> nat \<Rightarrow> error + nat" where
  "countMarkdownFiles_node (Dir dsz entries) =
     (case countMarkdownFiles_forEach entries 0 of Inl err \<Rightarrow> 0 | Inr count \<Rightarrow> count)"
| "countMarkdownFiles_node (File sz c) = 0"
| "countMarkdownFiles_node (NoList dsz) = 0"
| "countMarkdownFiles_node (NoStat why) = 0"
| "countMarkdownFiles_forEach [] count = Inr count"
| "countMarkdownFiles_forEach ((file, n) # list) count =
     (case statSync (Some n) of
        Inl err \<Rightarrow> Inl err
      | Inr st \<Rightarrow>
          if isDirectory st then
            countMarkdownFiles_forEach list (count + countMarkdownFiles_node n)
          else if extname_is_md file then countMarkdownFiles_forEach list (count + 1)
          else countMarkdownFiles_forEach list count)"

fun estimateDirectoryWordCount_node :: "node \<Rightarrow> nat"
  and estimateDirectoryWordCount_forEach ::
    "(string \<times> node) list \<Rightarrow> nat \<Rightarrow> error + nat" where
  "estimateDirectoryWordCount_node (Dir dsz entries) =
     (case estimateDirectoryWordCount_forEach entries 0 of
        Inl err \<Rightarrow> 0 | Inr totalWordCount \<Rightarrow> totalWordCount)"
| "estimateDirectoryWordCount_node (File sz c) = 0"
| "estimateDirectoryWordCount_node (NoList dsz) = 0"
| "estimateDirectoryWordCount_node (NoStat why) = 0"
| "estimateDirectoryWordCount_forEach [] totalWordCount = Inr totalWordCount"
| "estimateDirectoryWordCount_forEach ((file, n) # list) totalWordCount =
     (case statSync (Some n) of
        Inl err \<Rightarrow> Inl err
      | Inr st \<Rightarrow>
          if isDirectory st then
            estimateDirectoryWordCount_forEach list
              (totalWordCount + estimateDirectoryWordCount_node n)
          else if extname_is_md file then
            estimateDirectoryWordCount_forEach list
              (totalWordCount + estimateWordCount (Some n))
          else estimateDirectoryWordCount_forEach list totalWordCount)"

fun getDirectorySize_node :: "node \<Rightarrow> sized"
  and getDirectorySize_forEach :: "(string \<times> node) list \<Rightarrow> nat \<Rightarrow> error + nat" where
  "getDirectorySize_node (Dir dsz entries) =
     (case getDirectorySize_forEach entries 0 of
        Inl err \<Rightarrow> zeroSize | Inr totalSize \<Rightarrow> formatSize totalSize)"
| "getDirectorySize_node (File sz c) = zeroSize"
| "getDirectorySize_node (NoList dsz) = zeroSize"
| "getDirectorySize_node (NoStat why) = zeroSize"
| "getDirectorySize_forEach [] totalSize = Inr totalSize"
| "getDirectorySize_forEach ((file, n) # list) totalSize =
     (case statSync (Some n) of
        Inl err \<Rightarrow> Inl err
      | Inr st \<Rightarrow>
          if isDirectory st then
            getDirectorySize_forEach list (totalSize + bytes (getDirectorySize_node n))
          else getDirectorySize_forEach list (totalSize + stat_size st))"

text \<open>The operations as the scripts call them: on a path of the file system \<open>fs\<close>.\<close>

definition countMarkdownFiles :: "node \<Rightarrow> path \<Rightarrow> nat" where
  "countMarkdownFiles fs dirPath =
     (case lookup fs dirPath of None \<Rightarrow> 0 | Some n \<Rightarrow> countMarkdownFiles_node n)"

definition estimateDirectoryWordCount :: "node \<Rightarrow> path \<Rightarrow> nat" where
  "estimateDirectoryWordCount fs dirPath =
     (case lookup fs dirPath of None \<Rightarrow> 0 | Some n \<Rightarrow> estimateDirectoryWordCount_node n)"

definition getDirectorySize :: "node \<Rightarrow> path \<Rightarrow> sized" where
  "getDirectorySize fs dirPath =
     (case lookup fs dirPath of None \<Rightarrow> zeroSize | Some n \<Rightarrow> getDirectorySize_node n)"

text \<open>
  The loop of \<^verbatim>\<open>countMarkdownFiles\<close> as the source writes it, on the listed names
  and on paths; \<open>countMarkdownFiles_by_paths\<close> below shows that the definition above
  computes it.  The loops of the other two aggregates and of the scan correspond to
  their sources in the same way.
\<close>

fun countMarkdownFiles_loop :: "node \<Rightarrow> path \<Rightarrow> string list \<Rightarrow> nat \<Rightarrow> error + nat" where
  "countMarkdownFiles_loop fs dirPath [] count = Inr count"
| "countMarkdownFiles_loop fs dirPath (file # list) count =
     (let fullPath = dirPath @ [file]
      in case statSync (lookup fs fullPath) of
           Inl err \<Rightarrow> Inl err
         | Inr st \<Rightarrow>
             if isDirectory st then
               countMarkdownFiles_loop fs dirPath list (count + countMarkdownFiles fs fullPath)
             else if extname_is_md file then countMarkdownFiles_loop fs dirPath list (count + 1)
             else countMarkdownFiles_loop fs dirPath list count)"

section \<open>The scanned tree\<close>

text \<open>
  The objects built by \<^verbatim>\<open>getDirectoryStructure\<close>: \<^verbatim>\<open>type: 'file'\<close> with the file's
  metrics, or \<^verbatim>\<open>type: 'directory'\<close> with its children.
\<close>

datatype item =
    is_file: FileItem (name: string) (path: path) (depth: nat)
      (fsize: nat) (formattedSize: string) (wordCount: nat)
  | is_directory: DirItem (name: string) (path: path) (depth: nat) (children: "item list")
  where
    "children (FileItem n p d s f w) = []"
  | "fsize (DirItem n p d c) = 0"
  | "formattedSize (DirItem n p d c) = []"
  | "wordCount (DirItem n p d c) = 0"

text \<open>
  The first loop of the scan: an ignored name is skipped before anything is examined;
  \<^verbatim>\<open>statSync\<close> is outside any \<^verbatim>\<open>try\<close>, so its exception leaves the function.
\<close>

fun scan_forEach ::
  "(string \<times> node) list \<Rightarrow> (string \<times> node) list \<Rightarrow> (string \<times> node) list \<Rightarrow>
     error + ((string \<times> node) list \<times> (string \<times> node) list)" where
  "scan_forEach [] files directories = Inr (files, directories)"
| "scan_forEach ((file, n) # list) files directories =
     (if file \<in> set ignoreFiles then scan_forEach list files directories
      else case statSync (Some n) of
        Inl err \<Rightarrow> Inl err
      | Inr st \<Rightarrow>
          if isDirectory st then scan_forEach list files (directories @ [(file, n)])
          else if extname_is_md file then scan_forEach list (files @ [(file, n)]) directories
          else scan_forEach list files directories)"

text \<open>A \<^verbatim>\<open>forEach\<close> that pushes one result per element and stops at an exception.\<close>

fun mapE :: "('a \<Rightarrow> error + 'b) \<Rightarrow> 'a list \<Rightarrow> error + 'b list" where
  "mapE f [] = Inr []"
| "mapE f (x # xs) =
     (case f x of
        Inl err \<Rightarrow> Inl err
      | Inr y \<Rightarrow> (case mapE f xs of Inl err \<Rightarrow> Inl err | Inr ys \<Rightarrow> Inr (y # ys)))"

lemma mapE_cong [fundef_cong]:
  "xs = ys \<Longrightarrow> (\<And>x. x \<in> set ys \<Longrightarrow> f x = g x) \<Longrightarrow> mapE f xs = mapE g ys"
  by (induction ys arbitrary: xs) (auto split: sum.splits)

definition fileItem :: "path \<Rightarrow> nat \<Rightarrow> string \<times> node \<Rightarrow> item" where
  "fileItem dir dep entry =
     (let file = fst entry;
          fullPath = dir @ [file];
          fileSize = getFileSize (Some (snd entry));
          wc = estimateWordCount (Some (snd entry))
      in FileItem (basename_md file) fullPath (dep + 1)
           (bytes fileSize) (formatted fileSize) wc)"

lemma scan_forEach_subset:
  "scan_forEach list files directories = Inr (fs', ds') \<Longrightarrow>
     set ds' \<subseteq> set directories \<union> set list \<and> set fs' \<subseteq> set files \<union> set list"
  by (induction list files directories rule: scan_forEach.induct)
     (auto split: if_splits sum.splits)

lemma entry_size_less:
  "(file, n) \<in> set entries \<Longrightarrow> size n < size (Dir dsz entries)"
  by (induction entries) auto

text \<open>
  \<^verbatim>\<open>getDirectoryStructure\<close>.  \<^verbatim>\<open>files.sort()\<close> and \<^verbatim>\<open>directories.sort()\<close>
  order the names by their UTF-16 code units; \<open>sort_key fst\<close> orders them by their
  character codes, which is the same order for the names that can be written here
  (characters below U+0100).
\<close>

function getDirectoryStructure_node :: "path \<Rightarrow> nat \<Rightarrow> node \<Rightarrow> error + item" where
  "getDirectoryStructure_node dir dep (NoStat why) = Inr (DirItem (basename dir) dir dep [])"
| "getDirectoryStructure_node dir dep (File sz c) = Inl ENOTDIR"
| "getDirectoryStructure_node dir dep (NoList dsz) = Inl EACCES"
| "getDirectoryStructure_node dir dep (Dir dsz entries) =
     (case scan_forEach entries [] [] of
        Inl err \<Rightarrow> Inl err
      | Inr (files, directories) \<Rightarrow>
          (case mapE (\<lambda>entry. getDirectoryStructure_node (dir @ [fst entry]) (dep + 1) (snd entry))
                  (sort_key fst directories) of
             Inl err \<Rightarrow> Inl err
           | Inr subdirs \<Rightarrow>
               Inr (DirItem (basename dir) dir dep
                      (map (fileItem dir dep) (sort_key fst files) @ subdirs))))"
  by pat_completeness auto
termination
proof (relation "measure (\<lambda>(dir, dep, n). size n)")
  show "wf (measure (\<lambda>(dir, dep, n). size n))" by simp
next
  fix dir :: path and dep :: nat and dsz :: nat and entries x2 files directories entry
  assume scan: "scan_forEach entries [] [] = Inr x2"
    and x2: "(files, directories) = x2"
    and mem: "entry \<in> set (sort_key fst directories)"
  from scan x2 have "set directories \<subseteq> set entries"
    using scan_forEach_subset [of entries "[]" "[]" files directories] by auto
  with mem have "(fst entry, snd entry) \<in> set entries" by auto
  then have "size (snd entry) < size (Dir dsz entries)" by (rule entry_size_less)
  then show "((dir @ [fst entry], dep + 1, snd entry), (dir, dep, Dir dsz entries))
     \<in> measure (\<lambda>(dir, dep, n). size n)" by simp
qed

definition getDirectoryStructure :: "node \<Rightarrow> path \<Rightarrow> nat \<Rightarrow> error + item" where
  "getDirectoryStructure fs dir dep =
     (case lookup fs dir of
        None \<Rightarrow> Inr (DirItem (basename dir) dir dep [])
      | Some n \<Rightarrow> getDirectoryStructure_node dir dep n)"

section \<open>Pages\<close>

text \<open>
  The two scripts differ in some templates and in the walk.  \<open>Final\<close> is
  \<^verbatim>\<open>generate-docs-final.js\<close>; \<open>Usage\<close> is the script embedded in
  \<^verbatim>\<open>USAGE_EXAMPLE.md\<close>.
\<close>

datatype variant = Final | Usage

text \<open>
  A page is the sequence of the pieces appended to \<^verbatim>\<open>content\<close>.  The pieces without
  interpolated values are \<open>Fixed\<close>:
  \<^item> \<open>RootTableHead\<close>: header and rule of the four-column table of the root page;
  \<^item> \<open>RootFooter\<close>: rule, generated-file notice, contact and copyright block of the
    root page (the two scripts space it differently);
  \<^item> \<open>OverviewHead\<close>: overview heading with the header and rule of its table;
  \<^item> \<open>FileTableHead\<close>: header and rule of a three-column file table;
  \<^item> \<open>FileListHead\<close>, \<open>SubdirListHead\<close>: the headings of the file list and of the
    sub-directory list;
  \<^item> \<open>SubdirStatsHead\<close>: heading, header and rule of the sub-directory statistics
    table;
  \<^item> \<open>PageFooter\<close>: rule and generated-file notice;
  \<^item> \<open>Rule\<close>: a horizontal rule between blank lines; \<open>Blank\<close>: an empty line.
\<close>

datatype literal =
    RootTableHead | RootFooter variant | OverviewHead | FileTableHead | FileListHead
  | SubdirListHead | SubdirStatsHead | PageFooter | Rule | Blank

text \<open>
  The pieces with interpolated values:
  \<^item> \<open>Heading t\<close>, \<open>SubHeading t\<close>: a first-level and a second-level heading;
  \<^item> \<open>Counts f d\<close>: the sentence giving the numbers of document files and
    sub-directories;
  \<^item> \<open>StatRow label link count words size\<close>: a four-column row, the label
    hyperlinked when \<open>link\<close> is given;
  \<^item> \<open>FileRow label link words size\<close>: a three-column row of a file table;
  \<^item> \<open>TotalRow count link words size\<close>: the three-column roll-up row, whose
    hyperlinked label carries the document count;
  \<^item> \<open>Bullet c label link\<close>: a list entry with bullet character \<open>c\<close>;
  \<^item> \<open>HomeLink\<close>, \<open>BackToRoot\<close>, \<open>BackToParent\<close>: the sidebar entries with fixed
    labels, with their targets.
\<close>

datatype line =
    Heading string
  | SubHeading string
  | Counts nat nat
  | Fixed literal
  | StatRow string "string option" nat nat string
  | FileRow string string nat string
  | TotalRow nat string nat string
  | Bullet char string string
  | HomeLink string
  | BackToRoot string
  | BackToParent string

text \<open>
  \<^verbatim>\<open>config\<close>: the designated-collection name, and the encoding, kept as the byte
  length it gives a page when the page is written.
\<close>

record config =
  specifiedPath :: string
  encoding :: "line list \<Rightarrow> nat"

subsection \<open>Lemmas about pages and the walk\<close>

text \<open>
  \<^verbatim>\<open>path.relative(from, to)\<close> of Node's \<^verbatim>\<open>path\<close> module on resolved paths: the
  common prefix is dropped, one \<open>..\<close> climbs out of each remaining component of
  \<open>from\<close>, and the rest of \<open>to\<close> follows.
\<close>

fun relative :: "path \<Rightarrow> path \<Rightarrow> path" where
  "relative (a # from) (b # to) =
     (if a = b then relative from to
      else replicate (length (a # from)) ''..'' @ (b # to))"
| "relative from to = replicate (length from) ''..'' @ to"

text \<open>\<^verbatim>\<open>Array.prototype.join('/')\<close>, and the separator of a relative path.\<close>

fun joinSlash :: "string list \<Rightarrow> string" where
  "joinSlash [] = []"
| "joinSlash [c] = c"
| "joinSlash (c # cs) = c @ ''/'' @ joinSlash cs"

text \<open>\<^verbatim>\<open>.replace(/\\/g, '/')\<close>: every backslash becomes a slash.\<close>

definition replaceBackslashes :: "string \<Rightarrow> string" where
  "replaceBackslashes s = map (\<lambda>c. if c = CHR 0x5C then CHR ''/'' else c) s"

definition linkTo :: "path \<Rightarrow> path \<Rightarrow> string" where
  "linkTo basePath target = replaceBackslashes (joinSlash (relative basePath target))"

text \<open>\<^verbatim>\<open>String.prototype.split('/')\<close>.\<close>

fun splitSlash :: "string \<Rightarrow> string list" where
  "splitSlash [] = [[]]"
| "splitSlash (c # cs) =
     (if c = CHR ''/'' then [] # splitSlash cs
      else case splitSlash cs of [] \<Rightarrow> [[c]] | w # ws \<Rightarrow> (c # w) # ws)"

subsection \<open>Index pages\<close>

text \<open>
  Three pieces recur in the templates: the row with the three aggregates of a path,
  the row of one file object, and (further down) the file table that the normal and
  the intermediate page both emit when the directory has files.
\<close>

definition statRow :: "node \<Rightarrow> string \<Rightarrow> string option \<Rightarrow> path \<Rightarrow> line" where
  "statRow fs label link dirPath =
     StatRow label link (countMarkdownFiles fs dirPath) (estimateDirectoryWordCount fs dirPath)
       (formatted (getDirectorySize fs dirPath))"

definition fileRow :: "path \<Rightarrow> item \<Rightarrow> line" where
  "fileRow basePath file =
     FileRow (name file) (linkTo basePath (path file)) (wordCount file) (formattedSize file)"

definition generateRootReadmeContent ::
  "variant \<Rightarrow> config \<Rightarrow> node \<Rightarrow> item \<Rightarrow> path \<Rightarrow> line list" where
  "generateRootReadmeContent v cfg fs structure basePath =
     [Heading (specifiedPath cfg)] @
     (case find (\<lambda>item. is_directory item \<and> name item = specifiedPath cfg)
             (children structure) of
        None \<Rightarrow> []
      | Some specifiedPathDir \<Rightarrow>
          [Fixed RootTableHead,
           statRow fs (name specifiedPathDir) (Some (specifiedPath cfg @ ''/README.md''))
             (path specifiedPathDir)] @
          map (\<lambda>subDir.
                 statRow fs (name subDir)
                   (Some (specifiedPath cfg @ ''/'' @ name subDir @ ''/README.md''))
                   (path subDir))
              (filter is_directory (children specifiedPathDir))) @
     [Fixed (RootFooter v)]"

text \<open>
  The designated-collection page of \<^verbatim>\<open>generate-docs-final.js\<close>: one table per
  sub-directory, listing the files found by a new scan of it.  The scan can throw.
\<close>

definition generateSpecifiedPathReadmeContent ::
  "node \<Rightarrow> item \<Rightarrow> path \<Rightarrow> error + line list" where
  "generateSpecifiedPathReadmeContent fs structure basePath =
     (let fileCount = length (filter is_file (children structure));
          dirCount = length (filter is_directory (children structure));
          directories = filter is_directory (children structure)
      in case mapE (\<lambda>dir.
                case getDirectoryStructure fs (path dir) 0 of
                  Inl err \<Rightarrow> Inl err
                | Inr subdirStructure \<Rightarrow>
                    Inr ([SubHeading (name dir), Fixed FileTableHead] @
                         map (fileRow basePath) (filter is_file (children subdirStructure)) @
                         [Fixed Blank]))
              directories of
           Inl err \<Rightarrow> Inl err
         | Inr tables \<Rightarrow>
             Inr ([Heading (name structure), Counts fileCount dirCount, Fixed OverviewHead,
                   statRow fs (name structure) None (path structure)] @
                  concat tables @ [Fixed PageFooter]))"

text \<open>
  The designated-collection page of the script in \<^verbatim>\<open>USAGE_EXAMPLE.md\<close>: the table of a
  sub-directory lists its files when it has some, and otherwise, when it has
  sub-directories, holds one roll-up row.
\<close>

definition subdirRows :: "node \<Rightarrow> path \<Rightarrow> item \<Rightarrow> item \<Rightarrow> line list" where
  "subdirRows fs basePath dir subdirStructure =
     (let files = filter is_file (children subdirStructure);
          subdirs = filter is_directory (children subdirStructure)
      in if length files > 0 then map (fileRow basePath) files
         else if length subdirs > 0 then
           [TotalRow (countMarkdownFiles fs (path dir))
              (linkTo basePath (path dir) @ ''/README.md'')
              (estimateDirectoryWordCount fs (path dir))
              (formatted (getDirectorySize fs (path dir)))]
         else [])"

definition generateSpecifiedPathReadmeContent_usage ::
  "node \<Rightarrow> item \<Rightarrow> path \<Rightarrow> error + line list" where
  "generateSpecifiedPathReadmeContent_usage fs structure basePath =
     (let fileCount = length (filter is_file (children structure));
          dirCount = length (filter is_directory (children structure));
          directories = filter is_directory (children structure)
      in case mapE (\<lambda>dir.
                case getDirectoryStructure fs (path dir) 0 of
                  Inl err \<Rightarrow> Inl err
                | Inr subdirStructure \<Rightarrow>
                    Inr ([SubHeading (name dir), Fixed FileTableHead] @
                         subdirRows fs basePath dir subdirStructure @
                         [Fixed Blank]))
              directories of
           Inl err \<Rightarrow> Inl err
         | Inr tables \<Rightarrow>
             Inr ([Heading (name structure), Counts fileCount dirCount, Fixed OverviewHead,
                   statRow fs (name structure) (Some ''/README.md'') (path structure)] @
                  concat tables @ [Fixed PageFooter]))"

definition fileList :: "item \<Rightarrow> path \<Rightarrow> line list" where
  "fileList structure basePath =
     (let files = filter is_file (children structure)
      in if length files > 0 then
           [Fixed FileListHead, Fixed FileTableHead] @ map (fileRow basePath) files @
           [Fixed Blank]
         else [])"

definition generateIntermediateReadmeContent :: "node \<Rightarrow> item \<Rightarrow> path \<Rightarrow> line list" where
  "generateIntermediateReadmeContent fs structure basePath =
     (let fileCount = length (filter is_file (children structure));
          dirCount = length (filter is_directory (children structure));
          directories = filter is_directory (children structure)
      in [Heading (name structure), Counts fileCount dirCount] @
         fileList structure basePath @
         (if length directories > 0 then
            [Fixed SubdirStatsHead] @
            map (\<lambda>dir. statRow fs (name dir)
                         (Some (linkTo basePath (path dir) @ ''/README.md'')) (path dir))
                directories @
            [Fixed Blank]
          else []) @
         [Fixed PageFooter])"

definition generateNormalReadmeContent :: "variant \<Rightarrow> item \<Rightarrow> path \<Rightarrow> line list" where
  "generateNormalReadmeContent v structure basePath =
     (let fileCount = length (filter is_file (children structure));
          dirCount = length (filter is_directory (children structure));
          directories = filter is_directory (children structure)
      in [Heading (name structure), Counts fileCount dirCount] @
         fileList structure basePath @
         (if length directories > 0 then
            [Fixed SubdirListHead] @
            map (\<lambda>dir. Bullet (if v = Final then CHR ''-'' else CHR ''*'') (name dir)
                         (linkTo basePath (path dir) @ ''/README.md''))
                directories @
            [Fixed Blank]
          else []) @
         [Fixed PageFooter])"

subsection \<open>Sidebars\<close>

definition generateRootSidebarContent :: "variant \<Rightarrow> config \<Rightarrow> item \<Rightarrow> path \<Rightarrow> line list" where
  "generateRootSidebarContent v cfg structure basePath =
     [HomeLink (if v = Final then ''README.md'' else ''/README.md'')] @
     (case find (\<lambda>item. is_directory item \<and> name item = specifiedPath cfg)
             (children structure) of
        None \<Rightarrow> []
      | Some specifiedPathDir \<Rightarrow>
          [Bullet CHR ''*'' (specifiedPath cfg) (specifiedPath cfg @ ''/README.md''),
           Fixed Rule] @
          map (\<lambda>subDir. Bullet CHR ''*'' (name subDir)
                          (specifiedPath cfg @ ''/'' @ name subDir @ ''/README.md''))
              (filter is_directory (children specifiedPathDir)))"

definition generateSubdirSidebarContent :: "item \<Rightarrow> path \<Rightarrow> line list" where
  "generateSubdirSidebarContent structure basePath =
     [BackToRoot ''../README.md'', BackToParent ''./README.md'', Fixed Rule] @
     map (\<lambda>item. Bullet CHR ''*'' (name item) (linkTo basePath (path item)))
         (filter is_file (children structure))"

definition generateSubdirSidebarContent_usage :: "config \<Rightarrow> item \<Rightarrow> path \<Rightarrow> line list" where
  "generateSubdirSidebarContent_usage cfg structure basePath =
     (let relativePath = linkTo basePath (path structure);
          pathParts = splitSlash relativePath;
          files = filter is_file (children structure);
          directories = filter is_directory (children structure)
      in [BackToRoot ''/README.md''] @
         (if length pathParts \<le> 1 then [BackToParent ''/README.md'']
          else [BackToParent (joinSlash (butlast pathParts) @ ''/README.md'')]) @
         (if relativePath \<noteq> [] then
            [Bullet CHR ''*'' relativePath (relativePath @ ''/README.md'')]
          else [Bullet CHR ''*'' (specifiedPath cfg) (specifiedPath cfg @ ''/README.md'')]) @
         [Fixed Rule] @
         (if length files > 0 then
            map (\<lambda>item. Bullet CHR ''*'' (name item) (linkTo basePath (path item))) files @
            [Fixed Blank]
          else []) @
         (if length directories > 0 then
            map (\<lambda>dir. Bullet CHR ''*'' (name dir) (linkTo basePath (path dir) @ ''/README.md''))
                directories
          else []))"

section \<open>The walk and its writes\<close>

text \<open>
  The state of a run: the file system, and the calls of \<^verbatim>\<open>writeFileSync\<close> made so
  far, in order, each with its path and its content.
\<close>

record world =
  disk :: node
  written :: "(path \<times> line list) list"

text \<open>
  Writing \<open>len\<close> bytes at a path: the directory holding the file must exist and be a
  directory; a regular file of that name is replaced, a missing one is created, anything
  else there makes the call throw.
\<close>

fun writeFile :: "node \<Rightarrow> path \<Rightarrow> nat \<Rightarrow> error + node" where
  "writeFile (File sz c) [] len = Inr (File len (Some len))"
| "writeFile (Dir dsz entries) [] len = Inl EISDIR"
| "writeFile (NoList dsz) [] len = Inl EISDIR"
| "writeFile (NoStat why) [] len = Inl why"
| "writeFile (Dir dsz entries) (c # p) len =
     (case map_of entries c of
        None \<Rightarrow>
          if p = [] then Inr (Dir dsz (entries @ [(c, File len (Some len))])) else Inl ENOENT
      | Some n \<Rightarrow>
          (case writeFile n p len of
             Inl err \<Rightarrow> Inl err
           | Inr n' \<Rightarrow>
               Inr (Dir dsz (map (\<lambda>entry. if fst entry = c then (c, n') else entry) entries))))"
| "writeFile (File sz c') (c # p) len = Inl ENOTDIR"
| "writeFile (NoList dsz) (c # p) len = Inl EACCES"
| "writeFile (NoStat why) (c # p) len = Inl why"

definition writeFileSync :: "path \<Rightarrow> line list \<Rightarrow> config \<Rightarrow> world \<Rightarrow> error + world" where
  "writeFileSync file content cfg w =
     (case writeFile (disk w) file (encoding cfg content) of
        Inl err \<Rightarrow> Inl err
      | Inr d \<Rightarrow> Inr \<lparr>disk = d, written = written w @ [(file, content)]\<rparr>)"

text \<open>
  \<^verbatim>\<open>generateDocs\<close> of \<^verbatim>\<open>generate-docs-final.js\<close>.  The result is the state reached
  and the exception that left the function, if any.  The walk only ever reaches
  directory objects; on a file object \<^verbatim>\<open>structure.children.filter\<close> would throw.
\<close>

fun generateDocs :: "config \<Rightarrow> item \<Rightarrow> path \<Rightarrow> bool \<Rightarrow> world \<Rightarrow> world \<times> error option"
  and generateDocs_forEach :: "config \<Rightarrow> item list \<Rightarrow> path \<Rightarrow> world \<Rightarrow> world \<times> error option"
  where
  "generateDocs cfg (DirItem nm pth dp chs) basePath isRoot w =
     (case (if isRoot then
              Inr (generateRootReadmeContent Final cfg (disk w) (DirItem nm pth dp chs) basePath)
            else if nm = specifiedPath cfg then
              generateSpecifiedPathReadmeContent (disk w) (DirItem nm pth dp chs) basePath
            else Inr (generateNormalReadmeContent Final (DirItem nm pth dp chs) basePath)) of
        Inl err \<Rightarrow> (w, Some err)
      | Inr readmeContent \<Rightarrow>
          (case writeFileSync (pth @ [''README.md'']) readmeContent cfg w of
             Inl err \<Rightarrow> (w, Some err)
           | Inr w1 \<Rightarrow>
               (case (if nm \<noteq> specifiedPath cfg then
                        writeFileSync (pth @ [''_sidebar.md''])
                          (if isRoot then
                             generateRootSidebarContent Final cfg (DirItem nm pth dp chs) basePath
                           else generateSubdirSidebarContent (DirItem nm pth dp chs) basePath)
                          cfg w1
                      else Inr w1) of
                  Inl err \<Rightarrow> (w1, Some err)
                | Inr w2 \<Rightarrow> generateDocs_forEach cfg chs basePath w2)))"
| "generateDocs cfg (FileItem nm pth dp sz fmt wc) basePath isRoot w = (w, Some TypeError)"
| "generateDocs_forEach cfg [] basePath w = (w, None)"
| "generateDocs_forEach cfg (item # items) basePath w =
     (if is_directory item then
        (case generateDocs cfg item basePath False w of
           (w', Some err) \<Rightarrow> (w', Some err)
         | (w', None) \<Rightarrow> generateDocs_forEach cfg items basePath w')
      else generateDocs_forEach cfg items basePath w)"

text \<open>\<^verbatim>\<open>generateDocs\<close> of the script in \<^verbatim>\<open>USAGE_EXAMPLE.md\<close>.\<close>

fun generateDocs_usage ::
    "config \<Rightarrow> item \<Rightarrow> path \<Rightarrow> bool \<Rightarrow> world \<Rightarrow> world \<times> error option"
  and generateDocs_usage_forEach ::
    "config \<Rightarrow> item list \<Rightarrow> path \<Rightarrow> world \<Rightarrow> world \<times> error option"
  where
  "generateDocs_usage cfg (DirItem nm pth dp chs) basePath isRoot w =
     (case (if isRoot then
              Inr (generateRootReadmeContent Usage cfg (disk w) (DirItem nm pth dp chs) basePath)
            else if nm = specifiedPath cfg then
              generateSpecifiedPathReadmeContent_usage (disk w) (DirItem nm pth dp chs) basePath
            else if list_ex is_directory chs then
              Inr (generateIntermediateReadmeContent (disk w) (DirItem nm pth dp chs) basePath)
            else Inr (generateNormalReadmeContent Usage (DirItem nm pth dp chs) basePath)) of
        Inl err \<Rightarrow> (w, Some err)
      | Inr readmeContent \<Rightarrow>
          (case writeFileSync (pth @ [''README.md'']) readmeContent cfg w of
             Inl err \<Rightarrow> (w, Some err)
           | Inr w1 \<Rightarrow>
               (case writeFileSync (pth @ [''_sidebar.md''])
                       (if isRoot then
                          generateRootSidebarContent Usage cfg (DirItem nm pth dp chs) basePath
                        else if nm = specifiedPath cfg then
                          generateSubdirSidebarContent_usage cfg (DirItem nm pth dp chs) basePath
                        else
                          generateSubdirSidebarContent_usage cfg (DirItem nm pth dp chs) basePath)
                       cfg w1 of
                  Inl err \<Rightarrow> (w1, Some err)
                | Inr w2 \<Rightarrow> generateDocs_usage_forEach cfg chs basePath w2)))"
| "generateDocs_usage cfg (FileItem nm pth dp sz fmt wc) basePath isRoot w =
     (w, Some TypeError)"
| "generateDocs_usage_forEach cfg [] basePath w = (w, None)"
| "generateDocs_usage_forEach cfg (item # items) basePath w =
     (if is_directory item then
        (case generateDocs_usage cfg item basePath False w of
           (w', Some err) \<Rightarrow> (w', Some err)
         | (w', None) \<Rightarrow> generateDocs_usage_forEach cfg items basePath w')
      else generateDocs_usage_forEach cfg items basePath w)"

text \<open>
  \<^verbatim>\<open>main\<close>, the same in both scripts, on the resolved target directory and the file
  system at start: \<open>Exit1\<close> is \<^verbatim>\<open>console.error\<close> with the missing path followed by
  \<^verbatim>\<open>process.exit(1)\<close>; \<open>Uncaught\<close> is an exception that nothing catches.
\<close>

datatype outcome = Completed | Exit1 path | Uncaught error

definition main :: "variant \<Rightarrow> config \<Rightarrow> path \<Rightarrow> node \<Rightarrow> outcome \<times> world" where
  "main v cfg targetDir fs =
     (let w = \<lparr>disk = fs, written = []\<rparr>
      in if \<not> existsSync (lookup fs targetDir) then (Exit1 targetDir, w)
         else case getDirectoryStructure fs targetDir 0 of
                Inl err \<Rightarrow> (Uncaught err, w)
              | Inr structure \<Rightarrow>
                  (case (if v = Final then generateDocs cfg structure targetDir True w
                         else generateDocs_usage cfg structure targetDir True w) of
                     (w', None) \<Rightarrow> (Completed, w')
                   | (w', Some err) \<Rightarrow> (Uncaught err, w')))"

section \<open>Notions used to state the properties\<close>

text \<open>
  What \<^verbatim>\<open>statSync\<close> tells about a directory entry: whether it can be examined at
  all, and whether it is a sub-directory or a regular file.
\<close>

definition examinable :: "node \<Rightarrow> bool" where
  "examinable n \<longleftrightarrow> (case statSync (Some n) of Inl err \<Rightarrow> False | Inr st \<Rightarrow> True)"

definition is_subdirectory :: "node \<Rightarrow> bool" where
  "is_subdirectory n \<longleftrightarrow>
     (case statSync (Some n) of Inl err \<Rightarrow> False | Inr st \<Rightarrow> isDirectory st)"

definition is_regular_file :: "node \<Rightarrow> bool" where
  "is_regular_file n \<longleftrightarrow>
     (case statSync (Some n) of Inl err \<Rightarrow> False | Inr st \<Rightarrow> \<not> isDirectory st)"

text \<open>
  The error that ends a \<^verbatim>\<open>forEach\<close> over the entries of a directory: the one
  \<^verbatim>\<open>statSync\<close> throws for the first entry that cannot be examined.
\<close>

fun firstError :: "(string \<times> node) list \<Rightarrow> error" where
  "firstError [] = ENOENT"
| "firstError (entry # list) =
     (case statSync (Some (snd entry)) of Inl err \<Rightarrow> err | Inr st \<Rightarrow> firstError list)"

text \<open>
  The direct document files of a directory: the regular files among its entries whose
  extension is \<open>.md\<close> and whose name is not reserved.  Its immediate
  sub-directories are the entries that \<^verbatim>\<open>statSync\<close> reports as directories.
\<close>

definition directDocuments :: "(string \<times> node) list \<Rightarrow> string list" where
  "directDocuments entries =
     map fst (filter (\<lambda>entry. is_regular_file (snd entry) \<and> extname_is_md (fst entry) \<and>
                        fst entry \<notin> set ignoreFiles) entries)"

definition subDirectories :: "(string \<times> node) list \<Rightarrow> string list" where
  "subDirectories entries = map fst (filter (\<lambda>entry. is_subdirectory (snd entry)) entries)"

definition subDirectoryCounts :: "node \<Rightarrow> path \<Rightarrow> (string \<times> node) list \<Rightarrow> nat" where
  "subDirectoryCounts fs dirPath entries =
     sum_list (map (\<lambda>file. countMarkdownFiles fs (dirPath @ [file])) (subDirectories entries))"

text \<open>What one entry adds to each running total when the loop reaches it.\<close>

definition count_entry :: "string \<times> node \<Rightarrow> nat" where
  "count_entry entry =
     (if is_subdirectory (snd entry) then countMarkdownFiles_node (snd entry)
      else if extname_is_md (fst entry) then 1 else 0)"

definition words_entry :: "string \<times> node \<Rightarrow> nat" where
  "words_entry entry =
     (if is_subdirectory (snd entry) then estimateDirectoryWordCount_node (snd entry)
      else if extname_is_md (fst entry) then estimateWordCount (Some (snd entry)) else 0)"

definition bytes_entry :: "string \<times> node \<Rightarrow> nat" where
  "bytes_entry entry =
     (if is_subdirectory (snd entry) then bytes (getDirectorySize_node (snd entry))
      else case statSync (Some (snd entry)) of Inl err \<Rightarrow> 0 | Inr st \<Rightarrow> stat_size st)"

text \<open>
  The same tree without the regular files whose extension is not \<open>.md\<close>, at every
  depth.
\<close>

fun dropOtherFiles :: "node \<Rightarrow> node" where
  "dropOtherFiles (Dir dsz entries) =
     Dir dsz (map (\<lambda>entry. (fst entry, dropOtherFiles (snd entry)))
           (filter (\<lambda>entry. \<not> (is_regular_file (snd entry) \<and> \<not> extname_is_md (fst entry)))
              entries))"
| "dropOtherFiles n = n"









definition plain_cfg :: config where
  "plain_cfg = \<lparr>specifiedPath = ''C'', encoding = length\<rparr>"

definition site_fs :: node where
  "site_fs =
     Dir 64 [(''site'', Dir 64 [(''C'', Dir 64 [(''A'', Dir 64 [(''x.md'', File 500 (Some 500))])])])]"



definition unreadable_fs :: node where
  "unreadable_fs =
     Dir 64 [(''site'', Dir 64 [(''C'', Dir 64 [(''A'', Dir 64 [(''x.md'', File 500 (Some 500))]),
                                       (''B'', NoList 64)])])]"



text \<open>
  The table of one sub-directory on the designated-collection page, in the words of the
  specification and in terms of the file system: the documents of a directory are its
  regular files with the extension \<open>.md\<close> and a name that is not reserved, its
  sub-directories are its directories with a name that is not reserved, both in the
  order of their names.  \<open>documentRow\<close> is the row of one document; \<open>rollupRow\<close> is
  the single row with the recursive totals of the directory.
\<close>

definition documentsOf :: "(string \<times> node) list \<Rightarrow> (string \<times> node) list" where
  "documentsOf entries =
     sort_key fst
       (filter (\<lambda>entry. fst entry \<notin> set ignoreFiles \<and> is_regular_file (snd entry) \<and>
                        extname_is_md (fst entry)) entries)"

definition subdirsOf :: "(string \<times> node) list \<Rightarrow> (string \<times> node) list" where
  "subdirsOf entries =
     sort_key fst
       (filter (\<lambda>entry. fst entry \<notin> set ignoreFiles \<and> is_subdirectory (snd entry)) entries)"

definition entriesAt :: "node \<Rightarrow> path \<Rightarrow> (string \<times> node) list" where
  "entriesAt fs dirPath = (case lookup fs dirPath of Some (Dir dsz entries) \<Rightarrow> entries | _ \<Rightarrow> [])"

definition documentRow :: "path \<Rightarrow> path \<Rightarrow> string \<times> node \<Rightarrow> line" where
  "documentRow basePath dirPath entry =
     FileRow (basename_md (fst entry)) (linkTo basePath (dirPath @ [fst entry]))
       (estimateWordCount (Some (snd entry))) (formatted (getFileSize (Some (snd entry))))"

definition rollupRow :: "node \<Rightarrow> path \<Rightarrow> path \<Rightarrow> line" where
  "rollupRow fs basePath dirPath =
     TotalRow (countMarkdownFiles fs dirPath) (linkTo basePath dirPath @ ''/README.md'')
       (estimateDirectoryWordCount fs dirPath) (formatted (getDirectorySize fs dirPath))"

definition specTable :: "node \<Rightarrow> path \<Rightarrow> item \<Rightarrow> line list" where
  "specTable fs basePath dir =
     [SubHeading (name dir), Fixed FileTableHead] @
     (if documentsOf (entriesAt fs (path dir)) \<noteq> [] then
        map (documentRow basePath (path dir)) (documentsOf (entriesAt fs (path dir)))
      else if subdirsOf (entriesAt fs (path dir)) \<noteq> [] then [rollupRow fs basePath (path dir)]
      else []) @
     [Fixed Blank]"

text \<open>
  The table of \<^verbatim>\<open>generate-docs-final.js\<close> in the same terms: the rows of the
  documents, whatever else the sub-directory holds.
\<close>

definition finalTable :: "node \<Rightarrow> path \<Rightarrow> item \<Rightarrow> line list" where
  "finalTable fs basePath dir =
     [SubHeading (name dir), Fixed FileTableHead] @
     map (documentRow basePath (path dir)) (documentsOf (entriesAt fs (path dir))) @
     [Fixed Blank]"

text \<open>
  The hyperlink that a page piece carries, if it carries one, and the hyperlinks of a
  page, in the order of the page.
\<close>

fun linkOf :: "line \<Rightarrow> string option" where
  "linkOf (StatRow label link count words sz) = link"
| "linkOf (FileRow label link words sz) = Some link"
| "linkOf (TotalRow count link words sz) = Some link"
| "linkOf (Bullet c label link) = Some link"
| "linkOf (HomeLink link) = Some link"
| "linkOf (BackToRoot link) = Some link"
| "linkOf (BackToParent link) = Some link"
| "linkOf l = None"

definition linksOf :: "line list \<Rightarrow> string list" where
  "linksOf page = concat (map (\<lambda>l. case linkOf l of None \<Rightarrow> [] | Some link \<Rightarrow> [link]) page)"










definition collection_fs :: node where
  "collection_fs =
     Dir 64 [(''site'', Dir 64 [(''C'', Dir 64
       [(''A'', Dir 64 [(''x.md'', File 500 (Some 500)), (''y.md'', File 300 (Some 300))]),
        (''B'', Dir 64 [(''B1'', Dir 64 [(''z.md'', File 10 (Some 10))])])])])]"

definition collection_item :: item where
  "collection_item =
     DirItem ''C'' [''site'', ''C''] 1
       [DirItem ''A'' [''site'', ''C'', ''A''] 2
          [FileItem ''x'' [''site'', ''C'', ''A'', ''x.md''] 3 500 ''500 B'' 167,
           FileItem ''y'' [''site'', ''C'', ''A'', ''y.md''] 3 300 ''300 B'' 100],
        DirItem ''B'' [''site'', ''C'', ''B''] 2
          [DirItem ''B1'' [''site'', ''C'', ''B'', ''B1''] 3
             [FileItem ''z'' [''site'', ''C'', ''B'', ''B1'', ''z.md''] 4 10 ''10 B'' 3]]]"

definition collection_tables :: "line list" where
  "collection_tables =
     [SubHeading ''A'', Fixed FileTableHead,
      FileRow ''x'' ''C/A/x.md'' 167 ''500 B'', FileRow ''y'' ''C/A/y.md'' 100 ''300 B'',
      Fixed Blank,
      SubHeading ''B'', Fixed FileTableHead,
      TotalRow 1 ''C/B/README.md'' 3 ''10 B'',
      Fixed Blank]"

definition collection_page :: "line list" where
  "collection_page =
     [Heading ''C'', Counts 0 2, Fixed OverviewHead,
      StatRow ''C'' (Some ''/README.md'') 3 270 ''810 B''] @
     collection_tables @ [Fixed PageFooter]"

definition collection_page_final :: "line list" where
  "collection_page_final =
     [Heading ''C'', Counts 0 2, Fixed OverviewHead, StatRow ''C'' None 3 270 ''810 B'',
      SubHeading ''A'', Fixed FileTableHead,
      FileRow ''x'' ''C/A/x.md'' 167 ''500 B'', FileRow ''y'' ''C/A/y.md'' 100 ''300 B'',
      Fixed Blank,
      SubHeading ''B'', Fixed FileTableHead, Fixed Blank,
      Fixed PageFooter]"


definition site_A_page :: "line list" where
  "site_A_page =
     [Heading ''A'', Counts 1 0, Fixed FileListHead, Fixed FileTableHead,
      FileRow ''x'' ''C/A/x.md'' 167 ''500 B'', Fixed Blank, Fixed PageFooter]"

text \<open>Example trees.\<close>

definition library_entries :: "(string \<times> node) list" where
  "library_entries =
     [(''a.md'', File 500 (Some 500)),
      (''notes.txt'', File 7 (Some 7)),
      (''sub'', Dir 64 [(''b.md'', File 2000 (Some 2000)), (''c.md'', File 10 None)])]"

definition library_fs :: node where
  "library_fs = Dir 64 [(''docs'', Dir 64 library_entries)]"

definition dangling_entries :: "(string \<times> node) list" where
  "dangling_entries = [(''a.md'', File 500 (Some 500)), (''link'', NoStat ENOENT)]"

definition dangling_fs :: node where
  "dangling_fs = Dir 64 [(''docs'', Dir 64 dangling_entries)]"

definition rerun_fs :: node where
  "rerun_fs =
     Dir 64 [(''docs'', Dir 64 [(''README.md'', File 40 (Some 40)), (''a.md'', File 9 (Some 9))])]"

definition first_run_fs :: node where
  "first_run_fs = Dir 64 [(''docs'', Dir 64 [(''a.md'', File 9 (Some 9))])]"


definition nested_entries :: "(string \<times> node) list" where
  "nested_entries =
     [(''a.md'', File 500 (Some 500)),
      (''sub'', Dir 64 [(''b.md'', File 300 (Some 300)), (''link'', NoStat ENOENT)])]"

definition nested_fs :: node where
  "nested_fs = Dir 64 [(''docs'', Dir 64 nested_entries)]"




section \<open>Lemmas about the file system and the loops\<close>

lemma examinable_simps [simp]:
  "examinable (File sz c)" "examinable (Dir dsz entries)" "examinable (NoList dsz)" "\<not> examinable (NoStat why)"
  by (simp_all add: examinable_def)

lemma is_subdirectory_simps [simp]:
  "\<not> is_subdirectory (File sz c)" "is_subdirectory (Dir dsz entries)" "is_subdirectory (NoList dsz)"
  "\<not> is_subdirectory (NoStat why)"
  by (simp_all add: is_subdirectory_def)

lemma is_regular_file_simps [simp]:
  "is_regular_file (File sz c)" "\<not> is_regular_file (Dir dsz entries)" "\<not> is_regular_file (NoList dsz)"
  "\<not> is_regular_file (NoStat why)"
  by (simp_all add: is_regular_file_def)

lemma count_entry_simps [simp]:
  "count_entry (f, File sz c) = (if extname_is_md f then 1 else 0)"
  "count_entry (f, Dir dsz entries) = countMarkdownFiles_node (Dir dsz entries)"
  "count_entry (f, NoList dsz) = 0"
  by (simp_all add: count_entry_def)

lemma words_entry_simps [simp]:
  "words_entry (f, File sz c) =
     (if extname_is_md f then estimateWordCount (Some (File sz c)) else 0)"
  "words_entry (f, Dir dsz entries) = estimateDirectoryWordCount_node (Dir dsz entries)"
  "words_entry (f, NoList dsz) = 0"
  by (simp_all add: words_entry_def)

lemma bytes_entry_simps [simp]:
  "bytes_entry (f, File sz c) = sz"
  "bytes_entry (f, Dir dsz entries) = bytes (getDirectorySize_node (Dir dsz entries))"
  "bytes_entry (f, NoList dsz) = 0"
  by (simp_all add: bytes_entry_def zeroSize_def)

text \<open>
  Each loop either meets an entry that cannot be examined and throws, or returns the
  starting total plus what every entry adds.
\<close>

lemma count_forEach_eq:
  "countMarkdownFiles_forEach list acc =
     (if \<forall>entry \<in> set list. examinable (snd entry)
      then Inr (acc + sum_list (map count_entry list)) else Inl (firstError list))"
proof (induction list arbitrary: acc)
  case Nil
  then show ?case by simp
next
  case (Cons e list)
  obtain f n where e: "e = (f, n)" by (cases e)
  show ?case
    by (cases n) (simp_all add: e Cons.IH)
qed

lemma words_forEach_eq:
  "estimateDirectoryWordCount_forEach list acc =
     (if \<forall>entry \<in> set list. examinable (snd entry)
      then Inr (acc + sum_list (map words_entry list)) else Inl (firstError list))"
proof (induction list arbitrary: acc)
  case Nil
  then show ?case by simp
next
  case (Cons e list)
  obtain f n where e: "e = (f, n)" by (cases e)
  show ?case
    by (cases n) (simp_all add: e Cons.IH)
qed

lemma bytes_forEach_eq:
  "getDirectorySize_forEach list acc =
     (if \<forall>entry \<in> set list. examinable (snd entry)
      then Inr (acc + sum_list (map bytes_entry list)) else Inl (firstError list))"
proof (induction list arbitrary: acc)
  case Nil
  then show ?case by simp
next
  case (Cons e list)
  obtain f n where e: "e = (f, n)" by (cases e)
  show ?case
    by (cases n) (simp_all add: e Cons.IH zeroSize_def)
qed

lemma lookup_append:
  "lookup fs (p @ q) = (case lookup fs p of None \<Rightarrow> None | Some n \<Rightarrow> lookup n q)"
  by (induction fs p rule: lookup.induct) (simp_all split: option.splits)

text \<open>
  The path \<^verbatim>\<open>path.resolve(dirPath, file)\<close> of a listed entry resolves to that entry.
\<close>

lemma lookup_child:
  assumes "lookup fs dirPath = Some (Dir dsz entries)"
  shows "lookup fs (dirPath @ [f]) = map_of entries f"
  using assms by (simp add: lookup_append split: option.splits)

lemma lookup_entry:
  assumes "lookup fs dirPath = Some (Dir dsz entries)" "distinct (map fst entries)"
    "entry \<in> set entries"
  shows "lookup fs (dirPath @ [fst entry]) = Some (snd entry)"
proof -
  from assms(2,3) have "map_of entries (fst entry) = Some (snd entry)"
    by (intro map_of_is_SomeI) simp_all
  then show ?thesis by (simp add: lookup_child [OF assms(1)])
qed

lemma countMarkdownFiles_loop_forEach:
  "\<forall>entry \<in> set list. lookup fs (dirPath @ [fst entry]) = Some (snd entry) \<Longrightarrow>
   countMarkdownFiles_loop fs dirPath (map fst list) acc = countMarkdownFiles_forEach list acc"
proof (induction list arbitrary: acc)
  case Nil
  then show ?case by simp
next
  case (Cons e list)
  obtain f n where e: "e = (f, n)" by (cases e)
  from Cons.prems have here: "lookup fs (dirPath @ [f]) = Some n"
    and rest: "\<forall>entry \<in> set list. lookup fs (dirPath @ [fst entry]) = Some (snd entry)"
    by (auto simp: e)
  show ?case
    by (simp add: e here Cons.IH [OF rest] countMarkdownFiles_def Let_def split: sum.splits)
qed

lemma countMarkdownFiles_by_paths:
  assumes "\<And>dsz entries. lookup fs dirPath = Some (Dir dsz entries) \<Longrightarrow> distinct (map fst entries)"
  shows "countMarkdownFiles fs dirPath =
     (case readdirSync (lookup fs dirPath) of
        Inl err \<Rightarrow> 0
      | Inr list \<Rightarrow>
          (case countMarkdownFiles_loop fs dirPath list 0 of
             Inl err \<Rightarrow> 0 | Inr count \<Rightarrow> count))"
proof (cases "lookup fs dirPath")
  case None
  then show ?thesis by (simp add: countMarkdownFiles_def)
next
  case (Some n)
  show ?thesis
  proof (cases n)
    case (Dir dsz entries)
    with Some have dir: "lookup fs dirPath = Some (Dir dsz entries)" by simp
    from assms [OF dir] have "\<forall>entry \<in> set entries.
        lookup fs (dirPath @ [fst entry]) = Some (snd entry)"
      using lookup_entry [OF dir] by blast
    from countMarkdownFiles_loop_forEach [OF this] dir show ?thesis
      by (simp add: countMarkdownFiles_def)
  qed (simp_all add: Some countMarkdownFiles_def)
qed

lemma showNat_digit: "n < 10 \<Longrightarrow> showNat n = [digit n]"
  by (simp add: showNat.simps)

lemma showNat_more: "10 \<le> n \<Longrightarrow> showNat n = showNat (n div 10) @ [digit (n mod 10)]"
  by (subst showNat.simps) simp

lemmas show_eval = formatSize_def hundredths_def js_round_div_def showHundredths_def
  showNat_digit showNat_more digit_def

lemma formatSize_0: "formatSize 0 = zeroSize"
  by (simp add: show_eval zeroSize_def)

lemma bytes_formatSize [simp]: "bytes (formatSize k) = k"
  by (simp add: formatSize_def)


lemma statSync_dropOtherFiles [simp]:
  "statSync (Some (dropOtherFiles n)) = statSync (Some n)"
  by (cases n) simp_all

lemma readFileSync_dropOtherFiles [simp]:
  "readFileSync (Some (dropOtherFiles n)) = readFileSync (Some n)"
  by (cases n) simp_all






lemma hundredths_mono: "m \<le> n \<Longrightarrow> hundredths m unit \<le> hundredths n unit"
  by (simp add: hundredths_def js_round_div_def div_le_mono)

lemma kb_band:
  assumes "1024 \<le> n" "n < 1024 * 1024"
  shows "100 \<le> hundredths n 1024 \<and> hundredths n 1024 \<le> 102400 \<and>
         (hundredths n 1024 < 102400 \<longleftrightarrow> n < 1048571)"
  using assms unfolding hundredths_def js_round_div_def by simp arith

lemma mb_band:
  assumes "1024 * 1024 \<le> n"
  shows "100 \<le> hundredths n (1024 * 1024)"
  using assms by (simp add: hundredths_def js_round_div_def)

text \<open>\<open>js_round_div a b\<close> is the integer nearest to \<open>a / b\<close>, a half going up.\<close>

lemma js_round_div_nearest:
  assumes "0 < b"
  shows "2 * b * js_round_div a b \<le> 2 * a + b \<and> 2 * a + b < 2 * b * (js_round_div a b + 1)"
proof -
  have "2 * b * ((2 * a + b) div (2 * b)) \<le> 2 * a + b"
    by simp
  moreover have "2 * a + b < 2 * b * ((2 * a + b) div (2 * b) + 1)"
    using assms dividend_less_times_div [of "2 * b" "2 * a + b"] by (simp add: algebra_simps)
  ultimately show ?thesis by (simp add: js_round_div_def)
qed

section \<open>Recursive additivity of the document count\<close>

text \<open>
  Claim C1, as the code has it.  For a directory that can be listed, whose listed
  entries can all be examined by \<^verbatim>\<open>statSync\<close> and none of whose files carries a
  reserved name, the recursive document count equals the number of its direct document
  files plus the sum of the recursive document counts of its immediate
  sub-directories.  (Entry names in one directory are distinct.  What the count does
  with a file that carries a reserved name is the subject of claim C2 and is left out
  here.)
\<close>

theorem countMarkdownFiles_additive:
  assumes dir: "lookup fs dirPath = Some (Dir dsz entries)"
    and names: "distinct (map fst entries)"
    and ok: "\<forall>entry \<in> set entries. examinable (snd entry)"
    and unreserved: "\<forall>entry \<in> set entries. is_regular_file (snd entry) \<longrightarrow>
                       fst entry \<notin> set ignoreFiles"
  shows "countMarkdownFiles fs dirPath =
           length (directDocuments entries) + subDirectoryCounts fs dirPath entries"
proof -
  have child: "countMarkdownFiles fs (dirPath @ [fst entry]) = count_entry entry"
    if "entry \<in> set entries" "is_subdirectory (snd entry)" for entry
    using that lookup_entry [OF dir names that(1)]
    by (simp add: countMarkdownFiles_def count_entry_def)
  have subs: "subDirectoryCounts fs dirPath entries =
        sum_list (map count_entry (filter (\<lambda>entry. is_subdirectory (snd entry)) entries))"
  proof -
    have "map (\<lambda>entry. countMarkdownFiles fs (dirPath @ [fst entry]))
            (filter (\<lambda>entry. is_subdirectory (snd entry)) entries) =
          map count_entry (filter (\<lambda>entry. is_subdirectory (snd entry)) entries)"
      by (rule map_cong) (auto simp: child)
    then have "sum_list (map (\<lambda>entry. countMarkdownFiles fs (dirPath @ [fst entry]))
            (filter (\<lambda>entry. is_subdirectory (snd entry)) entries)) =
          sum_list (map count_entry (filter (\<lambda>entry. is_subdirectory (snd entry)) entries))"
      by (rule arg_cong)
    then show ?thesis
      by (simp only: subDirectoryCounts_def subDirectories_def map_map comp_def)
  qed
  have split: "sum_list (map count_entry list) =
        length (directDocuments list) +
        sum_list (map count_entry (filter (\<lambda>entry. is_subdirectory (snd entry)) list))"
    if "\<forall>entry \<in> set list. examinable (snd entry)"
      "\<forall>entry \<in> set list. is_regular_file (snd entry) \<longrightarrow> fst entry \<notin> set ignoreFiles"
    for list
    using that
  proof (induction list)
    case Nil
    then show ?case by (simp add: directDocuments_def)
  next
    case (Cons e list)
    obtain f n where e: "e = (f, n)" by (cases e)
    from Cons show ?case
      by (cases n) (simp_all add: e directDocuments_def)
  qed
  show ?thesis
    using ok split [OF ok unreserved]
    by (simp add: countMarkdownFiles_def dir count_forEach_eq subs)
qed

theorem countMarkdownFiles_additive_witness:
  "lookup library_fs [''docs''] = Some (Dir 64 library_entries) \<and>
   distinct (map fst library_entries) \<and>
   list_all (\<lambda>entry. examinable (snd entry)) library_entries \<and>
   list_all (\<lambda>entry. fst entry \<notin> set ignoreFiles) library_entries \<and>
   countMarkdownFiles library_fs [''docs''] = 3 \<and>
   directDocuments library_entries = [''a.md''] \<and>
   subDirectories library_entries = [''sub''] \<and>
   subDirectoryCounts library_fs [''docs''] library_entries = 2"
proof -
  have dir: "lookup library_fs [''docs''] = Some (Dir 64 library_entries)"
    by (simp add: library_fs_def)
  have names: "distinct (map fst library_entries)"
    by (simp add: library_entries_def)
  have ok: "\<forall>entry \<in> set library_entries. examinable (snd entry)"
    by (simp add: library_entries_def)
  have unreserved: "\<forall>entry \<in> set library_entries. fst entry \<notin> set ignoreFiles"
    by (simp add: library_entries_def ignoreFiles_def)
  then have unreserved': "\<forall>entry \<in> set library_entries. is_regular_file (snd entry) \<longrightarrow>
      fst entry \<notin> set ignoreFiles"
    by simp
  have docs: "directDocuments library_entries = [''a.md'']"
    by (simp add: library_entries_def directDocuments_def extname_is_md_def ignoreFiles_def)
  have subs: "subDirectories library_entries = [''sub'']"
    by (simp add: library_entries_def subDirectories_def)
  have total: "countMarkdownFiles library_fs [''docs''] = 3"
    by (simp add: library_fs_def library_entries_def countMarkdownFiles_def extname_is_md_def)
  from countMarkdownFiles_additive [OF dir names ok unreserved'] docs total
  have "subDirectoryCounts library_fs [''docs''] library_entries = 2" by simp
  with dir names ok unreserved docs subs total show ?thesis by (simp add: list_all_iff)
qed

text \<open>
  The claim as stated, for every directory, fails where an entry cannot be examined:
  the directory \<open>docs\<close> holds the document \<open>a.md\<close> and a dangling link, its count
  is 0, its direct documents are 1.
\<close>

theorem countMarkdownFiles_additive_counterexample:
  "lookup dangling_fs [''docs''] = Some (Dir 64 dangling_entries) \<and>
   statSync (lookup dangling_fs [''docs'', ''link'']) = Inl ENOENT \<and>
   countMarkdownFiles dangling_fs [''docs''] = 0 \<and>
   directDocuments dangling_entries = [''a.md''] \<and>
   subDirectories dangling_entries = [] \<and>
   countMarkdownFiles dangling_fs [''docs''] \<noteq>
     length (directDocuments dangling_entries) +
     subDirectoryCounts dangling_fs [''docs''] dangling_entries"
  by (simp add: dangling_fs_def dangling_entries_def countMarkdownFiles_def directDocuments_def
      subDirectories_def extname_is_md_def ignoreFiles_def)


section \<open>The aggregates never throw\<close>

text \<open>
  Claim C10, as the code has it.  Each aggregate operation (recursive document count,
  recursive content-volume estimate, recursive byte size) is a function into numbers:
  every exception of its body is caught by its own \<^verbatim>\<open>catch\<close>, which returns
  zero.  Three facts say what it returns.

  \<^item> The call returns zero, and \<open>0 B\<close> as the formatted size, when the error is
    raised at its own level: its path does not exist, names a regular file, names a
    directory that cannot be listed, or names a directory one of whose own entries
    cannot be examined; in the last case the total of the entries already visited is
    dropped.
  \<^item> When the path names a directory that can be listed and all of whose own entries
    can be examined, the call returns the sum of what its entries add: a file its own
    share, a sub-directory the result of the recursive call on it.
  \<^item> An error raised inside a sub-directory is caught by the recursive call on that
    sub-directory, which returns zero; the call above it goes on and returns what it
    would return without that sub-directory: a partial sum, not zero.
\<close>

theorem aggregates_zero_on_failure:
  "(lookup fs dirPath = None \<or> (\<exists>why. lookup fs dirPath = Some (NoStat why)) \<or>
    (\<exists>sz c. lookup fs dirPath = Some (File sz c)) \<or>
    (\<exists>dsz. lookup fs dirPath = Some (NoList dsz)) \<or>
    (\<exists>dsz entries f why. lookup fs dirPath = Some (Dir dsz entries) \<and>
       (f, NoStat why) \<in> set entries) \<longrightarrow>
      countMarkdownFiles fs dirPath = 0 \<and> estimateDirectoryWordCount fs dirPath = 0 \<and>
      getDirectorySize fs dirPath = \<lparr>bytes = 0, formatted = ''0 B''\<rparr>) \<and>
   (lookup fs dirPath = Some (Dir dsz entries) \<and>
    (\<forall>entry \<in> set entries. examinable (snd entry)) \<longrightarrow>
      countMarkdownFiles fs dirPath = sum_list (map count_entry entries) \<and>
      estimateDirectoryWordCount fs dirPath = sum_list (map words_entry entries) \<and>
      getDirectorySize fs dirPath = formatSize (sum_list (map bytes_entry entries))) \<and>
   (lookup fs dirPath = Some (Dir dsz (es1 @ (f, sub) # es2)) \<and>
    (\<forall>entry \<in> set (es1 @ es2). examinable (snd entry)) \<and>
    ((\<exists>d. sub = NoList d) \<or> (\<exists>d es g why. sub = Dir d es \<and> (g, NoStat why) \<in> set es)) \<longrightarrow>
      countMarkdownFiles fs dirPath = countMarkdownFiles_node (Dir dsz (es1 @ es2)) \<and>
      estimateDirectoryWordCount fs dirPath =
        estimateDirectoryWordCount_node (Dir dsz (es1 @ es2)) \<and>
      getDirectorySize fs dirPath = getDirectorySize_node (Dir dsz (es1 @ es2)))"
proof (intro conjI impI)
  have bad: "\<not> (\<forall>entry \<in> set entries. examinable (snd entry))"
    if "(f, NoStat why) \<in> set entries" for entries :: "(string \<times> node) list" and f why
    using that by force
  have zero: "countMarkdownFiles_node n = 0 \<and> estimateDirectoryWordCount_node n = 0 \<and>
      getDirectorySize_node n = zeroSize"
    if "(\<exists>d. n = NoList d) \<or> (\<exists>d es g why. n = Dir d es \<and> (g, NoStat why) \<in> set es)" for n
    using that
    by (auto simp: count_forEach_eq words_forEach_eq bytes_forEach_eq dest: bad)
  {
    assume "lookup fs dirPath = None \<or> (\<exists>why. lookup fs dirPath = Some (NoStat why)) \<or>
      (\<exists>sz c. lookup fs dirPath = Some (File sz c)) \<or>
      (\<exists>dsz. lookup fs dirPath = Some (NoList dsz)) \<or>
      (\<exists>dsz entries f why. lookup fs dirPath = Some (Dir dsz entries) \<and>
         (f, NoStat why) \<in> set entries)"
    then have all: "countMarkdownFiles fs dirPath = 0 \<and> estimateDirectoryWordCount fs dirPath = 0 \<and>
      getDirectorySize fs dirPath = \<lparr>bytes = 0, formatted = ''0 B''\<rparr>"
      by (auto simp: countMarkdownFiles_def estimateDirectoryWordCount_def getDirectorySize_def
          zeroSize_def count_forEach_eq words_forEach_eq bytes_forEach_eq dest: bad)
    from all show "countMarkdownFiles fs dirPath = 0" by simp
    from all show "estimateDirectoryWordCount fs dirPath = 0" by simp
    from all show "getDirectorySize fs dirPath = \<lparr>bytes = 0, formatted = ''0 B''\<rparr>" by simp
  }
  {
    assume a: "lookup fs dirPath = Some (Dir dsz entries) \<and>
      (\<forall>entry \<in> set entries. examinable (snd entry))"
    then show "countMarkdownFiles fs dirPath = sum_list (map count_entry entries)"
      by (simp add: countMarkdownFiles_def count_forEach_eq)
    from a show "estimateDirectoryWordCount fs dirPath = sum_list (map words_entry entries)"
      by (simp add: estimateDirectoryWordCount_def words_forEach_eq)
    from a show "getDirectorySize fs dirPath = formatSize (sum_list (map bytes_entry entries))"
      by (simp add: getDirectorySize_def bytes_forEach_eq)
  }
  {
    assume a: "lookup fs dirPath = Some (Dir dsz (es1 @ (f, sub) # es2)) \<and>
      (\<forall>entry \<in> set (es1 @ es2). examinable (snd entry)) \<and>
      ((\<exists>d. sub = NoList d) \<or> (\<exists>d es g why. sub = Dir d es \<and> (g, NoStat why) \<in> set es))"
    then have sub: "(\<exists>d. sub = NoList d) \<or>
        (\<exists>d es g why. sub = Dir d es \<and> (g, NoStat why) \<in> set es)"
      by simp
    then have ex: "examinable sub" by auto
    from sub have c: "count_entry (f, sub) = 0" "words_entry (f, sub) = 0"
      "bytes_entry (f, sub) = 0"
      using zero [OF sub] by (auto simp: zeroSize_def)
    from a ex have ok: "\<forall>entry \<in> set (es1 @ (f, sub) # es2). examinable (snd entry)"
      by auto
    from a have ok': "\<forall>entry \<in> set (es1 @ es2). examinable (snd entry)" by simp
    from a have dir: "lookup fs dirPath = Some (Dir dsz (es1 @ (f, sub) # es2))" by simp
    show "countMarkdownFiles fs dirPath = countMarkdownFiles_node (Dir dsz (es1 @ es2))"
      using ok ok' c by (simp add: countMarkdownFiles_def dir count_forEach_eq del: set_append)
    show "estimateDirectoryWordCount fs dirPath =
        estimateDirectoryWordCount_node (Dir dsz (es1 @ es2))"
      using ok ok' c
      by (simp add: estimateDirectoryWordCount_def dir words_forEach_eq del: set_append)
    show "getDirectorySize fs dirPath = getDirectorySize_node (Dir dsz (es1 @ es2))"
      using ok ok' c by (simp add: getDirectorySize_def dir bytes_forEach_eq del: set_append)
  }
qed

theorem aggregates_zero_on_failure_witness:
  "lookup dangling_fs [''docs''] = Some (Dir 64 dangling_entries) \<and>
   (''link'', NoStat ENOENT) \<in> set dangling_entries \<and>
   countMarkdownFiles dangling_fs [''docs''] = 0 \<and>
   estimateDirectoryWordCount dangling_fs [''docs''] = 0 \<and>
   getDirectorySize dangling_fs [''docs''] = \<lparr>bytes = 0, formatted = ''0 B''\<rparr> \<and>
   lookup dangling_fs [''absent''] = None \<and>
   countMarkdownFiles dangling_fs [''absent''] = 0 \<and>
   estimateDirectoryWordCount dangling_fs [''absent''] = 0 \<and>
   getDirectorySize dangling_fs [''absent''] = \<lparr>bytes = 0, formatted = ''0 B''\<rparr> \<and>
   lookup dangling_fs [''docs'', ''a.md''] = Some (File 500 (Some 500)) \<and>
   countMarkdownFiles dangling_fs [''docs'', ''a.md''] = 0 \<and>
   estimateDirectoryWordCount dangling_fs [''docs'', ''a.md''] = 0 \<and>
   getDirectorySize dangling_fs [''docs'', ''a.md''] = \<lparr>bytes = 0, formatted = ''0 B''\<rparr> \<and>
   lookup nested_fs [''docs''] = Some (Dir 64 nested_entries) \<and>
   list_all (\<lambda>entry. examinable (snd entry)) nested_entries \<and>
   countMarkdownFiles nested_fs [''docs''] = sum_list (map count_entry nested_entries) \<and>
   estimateDirectoryWordCount nested_fs [''docs''] = sum_list (map words_entry nested_entries) \<and>
   getDirectorySize nested_fs [''docs''] = formatSize (sum_list (map bytes_entry nested_entries)) \<and>
   nested_entries =
     [(''a.md'', File 500 (Some 500))] @
     (''sub'', Dir 64 [(''b.md'', File 300 (Some 300)), (''link'', NoStat ENOENT)]) # [] \<and>
   countMarkdownFiles nested_fs [''docs''] =
     countMarkdownFiles_node (Dir 64 ([(''a.md'', File 500 (Some 500))] @ [])) \<and>
   estimateDirectoryWordCount nested_fs [''docs''] =
     estimateDirectoryWordCount_node (Dir 64 ([(''a.md'', File 500 (Some 500))] @ [])) \<and>
   getDirectorySize nested_fs [''docs''] =
     getDirectorySize_node (Dir 64 ([(''a.md'', File 500 (Some 500))] @ []))"
proof -
  have dir: "lookup dangling_fs [''docs''] = Some (Dir 64 dangling_entries)"
    by (simp add: dangling_fs_def)
  have link: "(''link'', NoStat ENOENT) \<in> set dangling_entries"
    by (simp add: dangling_entries_def)
  have absent: "lookup dangling_fs [''absent''] = None"
    by (simp add: dangling_fs_def)
  have regular: "lookup dangling_fs [''docs'', ''a.md''] = Some (File 500 (Some 500))"
    by (simp add: dangling_fs_def dangling_entries_def)
  have nested: "lookup nested_fs [''docs''] = Some (Dir 64 nested_entries)"
    by (simp add: nested_fs_def)
  have ok: "\<forall>entry \<in> set nested_entries. examinable (snd entry)"
    by (simp add: nested_entries_def)
  have shape: "nested_entries =
     [(''a.md'', File 500 (Some 500))] @
     (''sub'', Dir 64 [(''b.md'', File 300 (Some 300)), (''link'', NoStat ENOENT)]) # []"
    by (simp add: nested_entries_def)
  have nested': "lookup nested_fs [''docs''] = Some (Dir 64 ([(''a.md'', File 500 (Some 500))] @
     (''sub'', Dir 64 [(''b.md'', File 300 (Some 300)), (''link'', NoStat ENOENT)]) # []))"
    using nested shape by simp
  have ok': "\<forall>entry \<in> set ([(''a.md'', File 500 (Some 500))] @ []). examinable (snd entry)"
    by simp
  have sub: "(\<exists>d. Dir 64 [(''b.md'', File 300 (Some 300)), (''link'', NoStat ENOENT)] = NoList d) \<or>
     (\<exists>d es g why. Dir 64 [(''b.md'', File 300 (Some 300)), (''link'', NoStat ENOENT)] = Dir d es \<and>
        (g, NoStat why) \<in> set es)"
    by auto
  from dir link have h1:
    "lookup dangling_fs [''docs''] = None \<or>
     (\<exists>why. lookup dangling_fs [''docs''] = Some (NoStat why)) \<or>
     (\<exists>sz c. lookup dangling_fs [''docs''] = Some (File sz c)) \<or>
     (\<exists>dsz. lookup dangling_fs [''docs''] = Some (NoList dsz)) \<or>
     (\<exists>dsz entries f why. lookup dangling_fs [''docs''] = Some (Dir dsz entries) \<and>
        (f, NoStat why) \<in> set entries)"
    by blast
  note t1 = aggregates_zero_on_failure [of dangling_fs "[''docs'']", THEN conjunct1, rule_format, OF h1]
  note t2 = aggregates_zero_on_failure [of dangling_fs "[''absent'']", THEN conjunct1, rule_format]
  note t3 = aggregates_zero_on_failure [of dangling_fs "[''docs'', ''a.md'']", THEN conjunct1, rule_format]
  note t4 = aggregates_zero_on_failure [of nested_fs "[''docs'']" 64 nested_entries,
      THEN conjunct2, THEN conjunct1, rule_format, OF conjI, OF nested ok]
  note t5 = aggregates_zero_on_failure [of nested_fs "[''docs'']" 64 _
      "[(''a.md'', File 500 (Some 500))]" "''sub''"
      "Dir 64 [(''b.md'', File 300 (Some 300)), (''link'', NoStat ENOENT)]" "[]",
      THEN conjunct2, THEN conjunct2, rule_format, OF conjI, OF nested' conjI, OF ok' sub]
  show ?thesis
    using dir link absent regular nested ok shape t1 t2 t3 t4 t5
    by (simp add: list_all_iff del: append.simps)
qed

text \<open>
  The claim as worded (any error raised mid-traversal collapses the whole call to
  zero) fails on a tree whose sub-directory holds a dangling link: the call on the
  sub-directory returns zero, the call on the directory above it returns the share of
  its other entry.
\<close>

theorem aggregates_partial_sum_counterexample:
  "statSync (lookup nested_fs [''docs'', ''sub'', ''link'']) = Inl ENOENT \<and>
   countMarkdownFiles nested_fs [''docs'', ''sub''] = 0 \<and>
   countMarkdownFiles nested_fs [''docs''] = 1 \<and>
   estimateDirectoryWordCount nested_fs [''docs''] = 167 \<and>
   getDirectorySize nested_fs [''docs''] = \<lparr>bytes = 500, formatted = ''500 B''\<rparr>"
  by (simp add: nested_fs_def nested_entries_def countMarkdownFiles_def
      estimateDirectoryWordCount_def getDirectorySize_def estimateWordCount_def
      extname_is_md_def zeroSize_def show_eval)

section \<open>Files without the document extension\<close>




section \<open>Formatted sizes\<close>

text \<open>
  Claim C3, as the code has it (for byte counts whose product with 100 is below
  \<open>2 ^ 53\<close>, where the double arithmetic of the source is exact).  A size
  \<open>b < 1024\<close> is printed as \<open>b B\<close>.  A size \<open>1024 \<le> k < 1048576\<close> is printed as
  \<open>k / 1024\<close> rounded to hundredths, a half going up, with the suffix \<open>KB\<close>; the
  printed value lies between 1 and 1024 inclusive, and it is below 1024 exactly when
  \<open>k < 1048571\<close>.  A larger size is printed by the same rule in \<open>MB\<close>, with a value
  of at least 1 and no upper bound.  The sizes 1024 and 1048576 are printed as \<open>1 KB\<close>
  and \<open>1 MB\<close>.  For a fixed unit the printed value is monotonic in the size.
  \<^verbatim>\<open>getFileSize\<close> applies this to \<^verbatim>\<open>stat.size\<close>.
\<close>

theorem formatted_size_bands:
  "(b < 1024 \<longrightarrow> formatted (formatSize b) = showNat b @ '' B'') \<and>
   (1024 \<le> k \<and> k < 1048576 \<longrightarrow>
      formatted (formatSize k) = showHundredths (hundredths k 1024) @ '' KB'' \<and>
      hundredths k 1024 = js_round_div (100 * k) 1024 \<and>
      100 \<le> hundredths k 1024 \<and> hundredths k 1024 \<le> 102400 \<and>
      (hundredths k 1024 < 102400 \<longleftrightarrow> k < 1048571)) \<and>
   (1048576 \<le> m \<longrightarrow>
      formatted (formatSize m) = showHundredths (hundredths m 1048576) @ '' MB'' \<and>
      hundredths m 1048576 = js_round_div (100 * m) 1048576 \<and>
      100 \<le> hundredths m 1048576) \<and>
   (x \<le> y \<longrightarrow> hundredths x unit \<le> hundredths y unit) \<and>
   formatted (formatSize 1024) = ''1 KB'' \<and>
   formatted (formatSize 1048576) = ''1 MB'' \<and>
   getFileSize (Some (File b c)) = formatSize b"
proof -
  have kb: "formatted (formatSize 1024) = ''1 KB''" by (simp add: show_eval)
  have mb: "formatted (formatSize 1048576) = ''1 MB''" by (simp add: show_eval)
  have band2: "100 \<le> hundredths k 1024 \<and> hundredths k 1024 \<le> 102400 \<and>
      (hundredths k 1024 < 102400 \<longleftrightarrow> k < 1048571)" if "1024 \<le> k" "k < 1048576"
    using kb_band [of k] that by simp
  have band3: "100 \<le> hundredths m 1048576" if "1048576 \<le> m"
    using mb_band [of m] that by simp
  show ?thesis
    using kb mb band2 band3 hundredths_mono [of x y unit]
    by (simp add: formatSize_def getFileSize_def hundredths_def)
qed

theorem formatted_size_bands_witness:
  "(500::nat) < 1024 \<and> formatted (formatSize 500) = ''500 B'' \<and>
   (1024::nat) \<le> 2510 \<and> (2510::nat) < 1048576 \<and>
   formatted (formatSize 2510) = ''2.45 KB'' \<and> hundredths 2510 1024 = 245 \<and>
   (1048576::nat) \<le> 3145728 \<and> formatted (formatSize 3145728) = ''3 MB'' \<and>
   (2000::nat) \<le> 2510 \<and> hundredths 2000 1024 \<le> hundredths 2510 1024 \<and>
   getFileSize (Some (File 500 None)) = formatSize 500"
proof -
  have s1: "showNat 500 @ '' B'' = ''500 B''" by (simp add: show_eval)
  have s2: "showHundredths (hundredths 2510 1024) @ '' KB'' = ''2.45 KB''"
    by (simp add: show_eval)
  have s3: "showHundredths (hundredths 3145728 1048576) @ '' MB'' = ''3 MB''"
    by (simp add: show_eval)
  have h2: "hundredths 2510 1024 = 245" by (simp add: show_eval)
  show ?thesis
    using formatted_size_bands [of 500 2510 3145728 2000 2510 1024 None] s1 s2 s3 h2
    by simp
qed

text \<open>
  The claim as stated fails at 1048575 bytes: the size stays in the \<open>KB\<close> band and is
  printed with the value 1024.
\<close>

theorem formatted_size_counterexample:
  "(1048575::nat) < 1024 * 1024 \<and> formatted (formatSize 1048575) = ''1024 KB'' \<and>
   \<not> hundredths 1048575 1024 < 1024 * 100"
  by (simp add: show_eval)

section \<open>Reserved names in the aggregates\<close>

text \<open>
  Claim C2 at a directory holding one document \<open>a.md\<close> and an index page
  \<open>README.md\<close> left by an earlier run.  The scan leaves the index page out of the
  children; \<^verbatim>\<open>countMarkdownFiles\<close> and \<^verbatim>\<open>estimateDirectoryWordCount\<close> have no test
  against \<^verbatim>\<open>config.ignoreFiles\<close> and count it: 2 documents and 16 words, where the
  same directory before the first run gives 1 document and 3 words.
\<close>

theorem reserved_files_are_counted:
  "getDirectoryStructure rerun_fs [''docs''] 0 =
     Inr (DirItem ''docs'' [''docs''] 0 [FileItem ''a'' [''docs'', ''a.md''] 1 9 ''9 B'' 3]) \<and>
   countMarkdownFiles rerun_fs [''docs''] = 2 \<and>
   estimateDirectoryWordCount rerun_fs [''docs''] = 16 \<and>
   countMarkdownFiles first_run_fs [''docs''] = 1 \<and>
   estimateDirectoryWordCount first_run_fs [''docs''] = 3"
  by code_simp


section \<open>What the walk writes\<close>












section \<open>A missing root\<close>

text \<open>
  Claim C8.  When the target directory of the run does not exist, \<^verbatim>\<open>main\<close> reports
  the path and exits with status 1; the scan and the walk do not start, nothing is
  written and the file system is as it was.
\<close>

theorem missing_root_is_fatal:
  assumes "\<not> existsSync (lookup fs targetDir)"
  shows "main v cfg targetDir fs = (Exit1 targetDir, \<lparr>disk = fs, written = []\<rparr>)"
  using assms by (simp add: main_def)

theorem missing_root_is_fatal_witness:
  "\<not> existsSync (lookup site_fs [''nowhere'']) \<and>
   main Final plain_cfg [''nowhere''] site_fs =
     (Exit1 [''nowhere''], \<lparr>disk = site_fs, written = []\<rparr>) \<and>
   main Usage plain_cfg [''nowhere''] site_fs =
     (Exit1 [''nowhere''], \<lparr>disk = site_fs, written = []\<rparr>)"
proof -
  have h: "\<not> existsSync (lookup site_fs [''nowhere''])"
    by (simp add: site_fs_def)
  show ?thesis
    using h missing_root_is_fatal [OF h, of Final plain_cfg]
      missing_root_is_fatal [OF h, of Usage plain_cfg]
    by simp
qed

section \<open>An unreadable sub-directory\<close>

text \<open>
  Claim C6 at a tree whose sub-directory \<open>site/C/B\<close> exists and cannot be listed.
  The size and metrics computations return zero there, as the claim says.  The scan does
  not: \<^verbatim>\<open>readdirSync\<close> in \<^verbatim>\<open>getDirectoryStructure\<close> is outside any \<^verbatim>\<open>try\<close>, the
  exception leaves the scan and \<^verbatim>\<open>main\<close>, and the run ends before the walk, with
  nothing written for any directory.
\<close>

theorem unreadable_subdirectory_aborts_scan:
  "lookup unreadable_fs [''site'', ''C'', ''B''] = Some (NoList 64) \<and>
   countMarkdownFiles unreadable_fs [''site'', ''C'', ''B''] = 0 \<and>
   estimateDirectoryWordCount unreadable_fs [''site'', ''C'', ''B''] = 0 \<and>
   getDirectorySize unreadable_fs [''site'', ''C'', ''B''] = \<lparr>bytes = 0, formatted = ''0 B''\<rparr> \<and>
   getDirectoryStructure unreadable_fs [''site'', ''C'', ''B''] 2 = Inl EACCES \<and>
   getDirectoryStructure unreadable_fs [''site''] 0 = Inl EACCES \<and>
   main Final plain_cfg [''site''] unreadable_fs =
     (Uncaught EACCES, \<lparr>disk = unreadable_fs, written = []\<rparr>) \<and>
   main Usage plain_cfg [''site''] unreadable_fs =
     (Uncaught EACCES, \<lparr>disk = unreadable_fs, written = []\<rparr>)"
  by code_simp


section \<open>Links\<close>

lemma filter_map_all: "(\<And>x. P (f x)) \<Longrightarrow> filter P (map f xs) = map f xs"
  by (induction xs) simp_all

lemma filter_map_none: "(\<And>x. \<not> P (f x)) \<Longrightarrow> filter P (map f xs) = []"
  by (induction xs) simp_all

lemma relative_below: "relative basePath (basePath @ q) = q"
proof (induction basePath)
  case Nil
  show ?case by (cases q) simp_all
next
  case (Cons a basePath)
  then show ?case by simp
qed



section \<open>The designated-collection page\<close>

lemma scan_forEach_eq:
  "scan_forEach list files directories = Inr (files', directories') \<Longrightarrow>
     files' = files @ filter (\<lambda>entry. fst entry \<notin> set ignoreFiles \<and> is_regular_file (snd entry) \<and>
                        extname_is_md (fst entry)) list \<and>
     directories' = directories @
       filter (\<lambda>entry. fst entry \<notin> set ignoreFiles \<and> is_subdirectory (snd entry)) list"
proof (induction list files directories rule: scan_forEach.induct)
  case (1 files directories)
  then show ?case by simp
next
  case (2 f n list files directories)
  show ?case
  proof (cases "f \<in> set ignoreFiles")
    case True
    with 2 show ?thesis by simp
  next
    case False
    with 2 show ?thesis
      by (cases n) (auto split: if_splits)
  qed
qed

lemma scan_node_shape:
  "getDirectoryStructure_node dir dep n = Inr r \<Longrightarrow>
     is_directory r \<and> path r = dir \<and> name r = basename dir"
  by (cases n) (auto split: sum.splits prod.splits)

lemma mapE_Inr:
  "mapE f xs = Inr ys \<Longrightarrow> list_all2 (\<lambda>x y. f x = Inr y) xs ys"
proof (induction xs arbitrary: ys)
  case Nil
  then show ?case by simp
next
  case (Cons x xs)
  then show ?case by (auto split: sum.splits)
qed

lemma mapE_results:
  "mapE f xs = Inr ys \<Longrightarrow> (\<And>x y. f x = Inr y \<Longrightarrow> P y) \<Longrightarrow>
     length ys = length xs \<and> (\<forall>y \<in> set ys. P y)"
proof (induction xs arbitrary: ys)
  case Nil
  then show ?case by simp
next
  case (Cons x xs)
  then show ?case by (auto split: sum.splits)
qed

lemma is_file_fileItem [simp]: "is_file (fileItem dir dep entry)" "\<not> is_directory (fileItem dir dep entry)"
  by (simp_all add: fileItem_def Let_def)

lemma scan_children:
  assumes "getDirectoryStructure_node dir dep (Dir dsz entries) = Inr r"
  shows "filter is_file (children r) = map (fileItem dir dep) (documentsOf entries) \<and>
         length (filter is_directory (children r)) = length (subdirsOf entries)"
proof -
  from assms obtain files directories subdirs where
    scan: "scan_forEach entries [] [] = Inr (files, directories)"
    and subs: "mapE (\<lambda>entry. getDirectoryStructure_node (dir @ [fst entry]) (dep + 1) (snd entry))
                 (sort_key fst directories) = Inr subdirs"
    and r: "r = DirItem (basename dir) dir dep
                  (map (fileItem dir dep) (sort_key fst files) @ subdirs)"
    by (auto split: sum.splits prod.splits)
  from scan_forEach_eq [OF scan] have files: "sort_key fst files = documentsOf entries"
    and dirs: "sort_key fst directories = subdirsOf entries"
    by (simp_all add: documentsOf_def subdirsOf_def)
  from mapE_results [OF subs, of is_directory] scan_node_shape
  have len: "length subdirs = length (sort_key fst directories)"
    and "\<forall>y \<in> set subdirs. is_directory y"
    by blast+
  then have only: "filter is_directory subdirs = subdirs" "filter is_file subdirs = []"
    by (auto simp: filter_empty_conv item.disc_eq_case split: item.splits)
  show ?thesis
    using only len by (simp add: r files dirs filter_map_all filter_map_none)
qed

lemma fileRow_fileItem:
  "fileRow basePath (fileItem dir dep entry) = documentRow basePath dir entry"
  by (simp add: fileRow_def fileItem_def documentRow_def Let_def)

lemma subdir_table:
  assumes "getDirectoryStructure fs (path dir) 0 = Inr subdirStructure"
  shows "[SubHeading (name dir), Fixed FileTableHead] @
           subdirRows fs basePath dir subdirStructure @ [Fixed Blank] =
         specTable fs basePath dir"
proof (cases "lookup fs (path dir)")
  case None
  with assms show ?thesis
    by (auto simp: getDirectoryStructure_def subdirRows_def specTable_def entriesAt_def
        documentsOf_def subdirsOf_def)
next
  case (Some n)
  show ?thesis
  proof (cases n)
    case (File sz c)
    with Some assms show ?thesis by (simp add: getDirectoryStructure_def)
  next
    case (Dir dsz entries)
    with Some assms have "getDirectoryStructure_node (path dir) 0 (Dir dsz entries) = Inr subdirStructure"
      by (simp add: getDirectoryStructure_def)
    from scan_children [OF this] Some Dir show ?thesis
      by (simp add: subdirRows_def specTable_def entriesAt_def Let_def rollupRow_def
          fileRow_fileItem comp_def)
  next
    case (NoList dsz)
    with Some assms show ?thesis by (simp add: getDirectoryStructure_def)
  next
    case (NoStat why)
    with Some assms show ?thesis
      by (auto simp: getDirectoryStructure_def subdirRows_def specTable_def entriesAt_def
          documentsOf_def subdirsOf_def)
  qed
qed

lemma mapE_map:
  "mapE f xs = Inr ys \<Longrightarrow> (\<And>x y. x \<in> set xs \<Longrightarrow> f x = Inr y \<Longrightarrow> y = g x) \<Longrightarrow> ys = map g xs"
proof (induction xs arbitrary: ys)
  case Nil
  then show ?case by simp
next
  case (Cons x xs)
  then show ?case by (auto split: sum.splits)
qed

lemma joinSlash_snoc: "q \<noteq> [] \<Longrightarrow> joinSlash (q @ [c]) = joinSlash q @ ''/'' @ c"
  by (induction q rule: joinSlash.induct) simp_all

lemma replaceBackslashes_append:
  "replaceBackslashes (a @ b) = replaceBackslashes a @ replaceBackslashes b"
  by (simp add: replaceBackslashes_def)

lemma designated_page:
  assumes page: "generateSpecifiedPathReadmeContent_usage fs structure basePath = Inr page"
  shows "page =
     [Heading (name structure),
      Counts (length (filter is_file (children structure)))
             (length (filter is_directory (children structure))),
      Fixed OverviewHead,
      statRow fs (name structure) (Some ''/README.md'') (path structure)] @
     concat (map (specTable fs basePath) (filter is_directory (children structure))) @
     [Fixed PageFooter]"
proof -
  let ?f = "\<lambda>dir. case getDirectoryStructure fs (path dir) 0 of
                  Inl err \<Rightarrow> Inl err
                | Inr subdirStructure \<Rightarrow>
                    Inr ([SubHeading (name dir), Fixed FileTableHead] @
                         subdirRows fs basePath dir subdirStructure @
                         [Fixed Blank])"
  from page obtain tables where
    t: "mapE ?f (filter is_directory (children structure)) = Inr tables"
    and p: "page = [Heading (name structure),
      Counts (length (filter is_file (children structure)))
             (length (filter is_directory (children structure))),
      Fixed OverviewHead,
      statRow fs (name structure) (Some ''/README.md'') (path structure)] @
      concat tables @ [Fixed PageFooter]"
    by (auto simp: generateSpecifiedPathReadmeContent_usage_def Let_def split: sum.splits)
  have "tables = map (specTable fs basePath) (filter is_directory (children structure))"
  proof (rule mapE_map [OF t])
    fix dir y
    assume "?f dir = Inr y"
    then obtain sub where s: "getDirectoryStructure fs (path dir) 0 = Inr sub"
      and y: "y = [SubHeading (name dir), Fixed FileTableHead] @
                  subdirRows fs basePath dir sub @ [Fixed Blank]"
      by (auto split: sum.splits)
    from subdir_table [OF s, of basePath] y show "y = specTable fs basePath dir"
      by simp
  qed
  with p show ?thesis by simp
qed


lemma subdir_table_final:
  assumes "getDirectoryStructure fs (path dir) 0 = Inr subdirStructure"
  shows "[SubHeading (name dir), Fixed FileTableHead] @
           map (fileRow basePath) (filter is_file (children subdirStructure)) @ [Fixed Blank] =
         finalTable fs basePath dir"
proof (cases "lookup fs (path dir)")
  case None
  with assms show ?thesis
    by (auto simp: getDirectoryStructure_def finalTable_def entriesAt_def documentsOf_def)
next
  case (Some n)
  show ?thesis
  proof (cases n)
    case (File sz c)
    with Some assms show ?thesis by (simp add: getDirectoryStructure_def)
  next
    case (Dir dsz entries)
    with Some assms have "getDirectoryStructure_node (path dir) 0 (Dir dsz entries) = Inr subdirStructure"
      by (simp add: getDirectoryStructure_def)
    from scan_children [OF this] Some Dir show ?thesis
      by (simp add: finalTable_def entriesAt_def fileRow_fileItem comp_def)
  next
    case (NoList dsz)
    with Some assms show ?thesis by (simp add: getDirectoryStructure_def)
  next
    case (NoStat why)
    with Some assms show ?thesis
      by (auto simp: getDirectoryStructure_def finalTable_def entriesAt_def documentsOf_def)
  qed
qed

lemma designated_page_final:
  assumes page: "generateSpecifiedPathReadmeContent fs structure basePath = Inr page"
  shows "page =
     [Heading (name structure),
      Counts (length (filter is_file (children structure)))
             (length (filter is_directory (children structure))),
      Fixed OverviewHead,
      statRow fs (name structure) None (path structure)] @
     concat (map (finalTable fs basePath) (filter is_directory (children structure))) @
     [Fixed PageFooter]"
proof -
  let ?f = "\<lambda>dir. case getDirectoryStructure fs (path dir) 0 of
                  Inl err \<Rightarrow> Inl err
                | Inr subdirStructure \<Rightarrow>
                    Inr ([SubHeading (name dir), Fixed FileTableHead] @
                         map (fileRow basePath) (filter is_file (children subdirStructure)) @
                         [Fixed Blank])"
  from page obtain tables where
    t: "mapE ?f (filter is_directory (children structure)) = Inr tables"
    and p: "page = [Heading (name structure),
      Counts (length (filter is_file (children structure)))
             (length (filter is_directory (children structure))),
      Fixed OverviewHead,
      statRow fs (name structure) None (path structure)] @
      concat tables @ [Fixed PageFooter]"
    by (auto simp: generateSpecifiedPathReadmeContent_def Let_def split: sum.splits)
  have "tables = map (finalTable fs basePath) (filter is_directory (children structure))"
  proof (rule mapE_map [OF t])
    fix dir y
    assume "?f dir = Inr y"
    then obtain sub where s: "getDirectoryStructure fs (path dir) 0 = Inr sub"
      and y: "y = [SubHeading (name dir), Fixed FileTableHead] @
                  map (fileRow basePath) (filter is_file (children sub)) @ [Fixed Blank]"
      by (auto split: sum.splits)
    from subdir_table_final [OF s, of basePath] y show "y = finalTable fs basePath dir"
      by simp
  qed
  with p show ?thesis by simp
qed

lemma mapE_origin:
  "mapE f xs = Inr ys \<Longrightarrow> \<forall>y \<in> set ys. \<exists>x \<in> set xs. f x = Inr y"
proof (induction xs arbitrary: ys)
  case Nil
  then show ?case by simp
next
  case (Cons x xs)
  then show ?case by (auto split: sum.splits)
qed

text \<open>No child of a scanned directory carries a reserved name.\<close>

lemma scan_excludes_reserved:
  assumes "getDirectoryStructure_node dir dep n = Inr r" and "item \<in> set (children r)"
  shows "\<exists>f. path item = dir @ [f] \<and> f \<notin> set ignoreFiles"
proof (cases n)
  case (Dir dsz entries)
  with assms(1) obtain files directories subdirs where
    scan: "scan_forEach entries [] [] = Inr (files, directories)"
    and subs: "mapE (\<lambda>entry. getDirectoryStructure_node (dir @ [fst entry]) (dep + 1) (snd entry))
                 (sort_key fst directories) = Inr subdirs"
    and r: "r = DirItem (basename dir) dir dep
                  (map (fileItem dir dep) (sort_key fst files) @ subdirs)"
    by (auto split: sum.splits prod.splits)
  from scan_forEach_eq [OF scan]
  have fs: "\<forall>entry \<in> set files. fst entry \<notin> set ignoreFiles"
    and ds: "\<forall>entry \<in> set directories. fst entry \<notin> set ignoreFiles"
    by auto
  from assms(2) r consider
    entry where "entry \<in> set files" "item = fileItem dir dep entry"
    | "item \<in> set subdirs"
    by auto
  then show ?thesis
  proof cases
    case 1
    with fs show ?thesis by (auto simp: fileItem_def Let_def)
  next
    case 2
    with mapE_origin [OF subs] obtain entry where
      "entry \<in> set directories"
      "getDirectoryStructure_node (dir @ [fst entry]) (dep + 1) (snd entry) = Inr item"
      by auto
    with ds scan_node_shape [of "dir @ [fst entry]" "dep + 1" "snd entry" item]
    show ?thesis by auto
  qed
next
  case (File sz c)
  with assms show ?thesis by simp
next
  case (NoList dsz)
  with assms show ?thesis by simp
next
  case (NoStat why)
  with assms show ?thesis by auto
qed

text \<open>
  Claim C5, as the code has it.  The designated-collection page of the script in
  \<^verbatim>\<open>USAGE_EXAMPLE.md\<close>, whose template the specification adopts, consists of the
  heading, the counts, the overview table and then, for each immediate sub-directory in
  order, one table: the rows of the sub-directory's documents (name, content volume,
  formatted size) when it has documents; otherwise, when it has sub-directories,
  exactly one roll-up row with its recursive document count, content volume and
  formatted size; otherwise no row.  The link of the roll-up row is the link of the
  sub-directory's own \<open>README.md\<close>.  The page of \<^verbatim>\<open>generate-docs-final.js\<close> has
  the same shape with the rows of the documents in every table and never a roll-up row.
\<close>

theorem designated_page_tables:
  "(generateSpecifiedPathReadmeContent_usage fs structure basePath = Inr page \<longrightarrow>
      page =
        [Heading (name structure),
         Counts (length (filter is_file (children structure)))
                (length (filter is_directory (children structure))),
         Fixed OverviewHead,
         statRow fs (name structure) (Some ''/README.md'') (path structure)] @
        concat (map (specTable fs basePath) (filter is_directory (children structure))) @
        [Fixed PageFooter]) \<and>
   (q \<noteq> [] \<longrightarrow>
      rollupRow fs basePath (basePath @ q) =
        TotalRow (countMarkdownFiles fs (basePath @ q))
          (linkTo basePath (basePath @ q @ [''README.md'']))
          (estimateDirectoryWordCount fs (basePath @ q))
          (formatted (getDirectorySize fs (basePath @ q)))) \<and>
   (generateSpecifiedPathReadmeContent fs structure basePath = Inr page' \<longrightarrow>
      page' =
        [Heading (name structure),
         Counts (length (filter is_file (children structure)))
                (length (filter is_directory (children structure))),
         Fixed OverviewHead,
         statRow fs (name structure) None (path structure)] @
        concat (map (finalTable fs basePath) (filter is_directory (children structure))) @
        [Fixed PageFooter])"
proof -
  have link: "linkTo basePath (basePath @ q) @ ''/README.md'' =
      linkTo basePath (basePath @ q @ [''README.md''])" if "q \<noteq> []"
  proof -
    have "linkTo basePath (basePath @ (q @ [''README.md''])) =
        replaceBackslashes (joinSlash q) @ replaceBackslashes ''/README.md''"
      using joinSlash_snoc [OF that, of "''README.md''"]
      by (simp add: linkTo_def relative_below replaceBackslashes_append
          del: append_assoc)
    moreover have "replaceBackslashes ''/README.md'' = ''/README.md''"
      by (simp add: replaceBackslashes_def)
    ultimately show ?thesis
      by (simp add: linkTo_def relative_below)
  qed
  show ?thesis
    using designated_page [of fs "structure" basePath page]
      designated_page_final [of fs "structure" basePath page'] link
    by (simp add: rollupRow_def)
qed

theorem designated_page_tables_witness:
  "generateSpecifiedPathReadmeContent_usage collection_fs collection_item [''site''] =
     Inr collection_page \<and>
   collection_page =
     [Heading (name collection_item),
      Counts (length (filter is_file (children collection_item)))
             (length (filter is_directory (children collection_item))),
      Fixed OverviewHead,
      statRow collection_fs (name collection_item) (Some ''/README.md'')
        (path collection_item)] @
     concat (map (specTable collection_fs [''site''])
               (filter is_directory (children collection_item))) @
     [Fixed PageFooter] \<and>
   concat (map (specTable collection_fs [''site''])
             (filter is_directory (children collection_item))) = collection_tables \<and>
   rollupRow collection_fs [''site''] ([''site''] @ [''C'', ''B'']) =
     TotalRow (countMarkdownFiles collection_fs ([''site''] @ [''C'', ''B'']))
       (linkTo [''site''] ([''site''] @ [''C'', ''B''] @ [''README.md'']))
       (estimateDirectoryWordCount collection_fs ([''site''] @ [''C'', ''B'']))
       (formatted (getDirectorySize collection_fs ([''site''] @ [''C'', ''B'']))) \<and>
   rollupRow collection_fs [''site''] [''site'', ''C'', ''B''] =
     TotalRow 1 ''C/B/README.md'' 3 ''10 B'' \<and>
   generateSpecifiedPathReadmeContent collection_fs collection_item [''site''] =
     Inr collection_page_final \<and>
   collection_page_final =
     [Heading (name collection_item),
      Counts (length (filter is_file (children collection_item)))
             (length (filter is_directory (children collection_item))),
      Fixed OverviewHead,
      statRow collection_fs (name collection_item) None (path collection_item)] @
     concat (map (finalTable collection_fs [''site''])
               (filter is_directory (children collection_item))) @
     [Fixed PageFooter]"
proof -
  have page': "generateSpecifiedPathReadmeContent collection_fs collection_item [''site''] =
     Inr collection_page_final"
    by code_simp
  have page: "generateSpecifiedPathReadmeContent_usage collection_fs collection_item [''site''] =
     Inr collection_page"
    by code_simp
  have tabs: "concat (map (specTable collection_fs [''site''])
             (filter is_directory (children collection_item))) = collection_tables"
    by code_simp
  have roll: "rollupRow collection_fs [''site''] [''site'', ''C'', ''B''] =
     TotalRow 1 ''C/B/README.md'' 3 ''10 B''"
    by code_simp
  have q: "[''C'', ''B''] \<noteq> []"
    by simp
  note inst = designated_page_tables [of collection_fs collection_item "[''site'']"
      collection_page "[''C'', ''B'']" collection_page_final]
  from inst page page' q tabs roll show ?thesis
    by blast
qed

text \<open>
  The claim as stated fails for \<^verbatim>\<open>generate-docs-final.js\<close>: the sub-directory
  \<open>site/C/B\<close> holds only the sub-directory \<open>B1\<close>, with one document below it, and
  its table on the page has no row.
\<close>

theorem designated_page_counterexample:
  "getDirectoryStructure collection_fs [''site'', ''C''] 1 = Inr collection_item \<and>
   countMarkdownFiles collection_fs [''site'', ''C'', ''B''] = 1 \<and>
   generateSpecifiedPathReadmeContent collection_fs collection_item [''site''] =
     Inr [Heading ''C'', Counts 0 2, Fixed OverviewHead, StatRow ''C'' None 3 270 ''810 B'',
          SubHeading ''A'', Fixed FileTableHead,
          FileRow ''x'' ''C/A/x.md'' 167 ''500 B'', FileRow ''y'' ''C/A/y.md'' 100 ''300 B'',
          Fixed Blank,
          SubHeading ''B'', Fixed FileTableHead, Fixed Blank,
          Fixed PageFooter]"
  by code_simp


section \<open>Links\<close>

lemma linksOf_append [simp]: "linksOf (xs @ ys) = linksOf xs @ linksOf ys"
  by (simp add: linksOf_def)

lemma linksOf_Nil [simp]: "linksOf [] = []"
  by (simp add: linksOf_def)

lemma linksOf_Cons [simp]:
  "linksOf (l # ls) = (case linkOf l of None \<Rightarrow> [] | Some link \<Rightarrow> [link]) @ linksOf ls"
  by (simp add: linksOf_def)






















end
